theory Spec2Isabelle
  imports Main "HOL-Library.Sublist"
begin

section \<open>Python values: strings and exceptions\<close>

text \<open>
  A Python \<open>str\<close> is modelled by its UTF-8 encoding, an Isabelle \<^typ>\<open>string\<close>; an ASCII
  string is one whose bytes are all below 128, and \<open>+\<close> on strings is \<open>@\<close>.

  \<open>str.lower()\<close> follows CPython (\<open>unicode_lower_impl\<close>): an ASCII string is mapped
  byte by byte through the ASCII table (\<open>A\<close>..\<open>Z\<close> become \<open>a\<close>..\<open>z\<close>, everything else stays);
  any other string goes through the Unicode character database, which is not part of
  the repository and is taken as the parameter \<open>lower_u\<close>. \<open>str.upper()\<close> is symmetric.
  \<open>str(x)\<close> is the identity on a \<open>str\<close>.
\<close>

definition is_ascii :: "string \<Rightarrow> bool" where
  "is_ascii s = list_all (\<lambda>c. (of_char c :: nat) < 128) s"

definition ascii_tolower :: "char \<Rightarrow> char" where
  "ascii_tolower c =
     (let n = of_char c :: nat in if 65 \<le> n \<and> n \<le> 90 then char_of (n + 32) else c)"

definition ascii_toupper :: "char \<Rightarrow> char" where
  "ascii_toupper c =
     (let n = of_char c :: nat in if 97 \<le> n \<and> n \<le> 122 then char_of (n - 32) else c)"

definition py_lower :: "(string \<Rightarrow> string) \<Rightarrow> string \<Rightarrow> string" where
  "py_lower lower_u s = (if is_ascii s then map ascii_tolower s else lower_u s)"

definition py_upper :: "(string \<Rightarrow> string) \<Rightarrow> string \<Rightarrow> string" where
  "py_upper upper_u s = (if is_ascii s then map ascii_toupper s else upper_u s)"

text \<open>
  A case variant of a string: the letter case is flipped at the positions where the
  flag list says so.
\<close>

definition ascii_swapcase :: "char \<Rightarrow> char" where
  "ascii_swapcase c =
     (let n = of_char c :: nat in
      if 65 \<le> n \<and> n \<le> 90 then char_of (n + 32)
      else if 97 \<le> n \<and> n \<le> 122 then char_of (n - 32) else c)"

fun recase :: "bool list \<Rightarrow> string \<Rightarrow> string" where
  "recase (b # bs) (c # cs) = (if b then ascii_swapcase c else c) # recase bs cs"
| "recase [] cs = cs"
| "recase bs [] = []"

text \<open>
  Exceptions. Whatever the browser driver raises is a value of the type \<open>'x\<close>; the
  script never inspects it. The remaining constructors are the exceptions of the
  pandas calls of the script.
\<close>

datatype 'x exn =
    DriverError 'x
  | FileNotFoundError
  | EmptyDataError
  | KeyError
  | ValueError
  | IndexError

section \<open>The browser session\<close>

text \<open>
  The Selenium calls of the script: \<open>driver.get(url)\<close>,
  \<open>driver.find_element(By.XPATH, xpath)\<close>, \<open>element.click()\<close>, \<open>element.text\<close> and
  \<open>driver.implicitly_wait(seconds)\<close>. The browser is outside the program: a driver is
  any five functions on a session state \<open>'s\<close> with element handles \<open>'e\<close>, each of which
  may return or raise, and may change the session either way.
\<close>

datatype By = XPATH

record ('s, 'e, 'x) webdriver =
  drv_get :: "string \<Rightarrow> 's \<Rightarrow> ('x + unit) \<times> 's"
  drv_find_element :: "By \<Rightarrow> string \<Rightarrow> 's \<Rightarrow> ('x + 'e) \<times> 's"
  drv_click :: "'e \<Rightarrow> 's \<Rightarrow> ('x + unit) \<times> 's"
  drv_text :: "'e \<Rightarrow> 's \<Rightarrow> ('x + string) \<times> 's"
  drv_implicitly_wait :: "nat \<Rightarrow> 's \<Rightarrow> ('x + unit) \<times> 's"

text \<open>Every call made to the driver is recorded, with what it gave back.\<close>

datatype 'e call =
    Get string
  | FindElement By string
  | Click 'e
  | Text 'e
  | ImplicitlyWait nat

datatype ('e, 'x) outcome =
    Raised 'x
  | Returned
  | ReturnedElement 'e
  | ReturnedText string

section \<open>Tables and files\<close>

text \<open>
  A CSV file is its header line and its data lines, each a list of fields, which are
  text. A pandas DataFrame is its row index, its column labels and its data, column by
  column. A cell of the table is either a value that pandas inferred when it read the
  file (a number, a boolean, a missing value, a str) or a Python str that the script
  put there.

  What pandas infers from the text of a column, what it writes for an inferred value,
  and what Python's \<open>str()\<close> gives for it belong to pandas and Python, not to the
  repository. They are parameters: \<open>infer col i\<close> is the value at row \<open>i\<close> of a column
  whose fields are \<open>col\<close>, \<open>written v\<close> is the field that \<open>to_csv\<close> writes for the value \<open>v\<close>,
  and \<open>str_of v\<close> is \<open>str(v)\<close>. So \<open>007\<close> may load as the number 7, be written as \<open>7\<close> and
  have \<open>str\<close> \<open>7\<close>, and \<open>NA\<close> may load as a missing value, be written as the empty field
  and have \<open>str\<close> \<open>nan\<close>.
\<close>

datatype 'v cell = Inferred 'v | Str string

record 'v pandas =
  infer :: "string list \<Rightarrow> nat \<Rightarrow> 'v"
  written :: "'v \<Rightarrow> string"
  str_of :: "'v \<Rightarrow> string"

record csv =
  header :: "string list"
  rows :: "string list list"

record 'v dataframe =
  df_index :: "'v list"
  df_columns :: "string list"
  df_data :: "'v cell list list"

section \<open>Program state and control flow\<close>

text \<open>
  The globals of the script (\<open>driver\<close>'s session, \<open>one_mo_vals\<close>, \<open>ytd_vals\<close>), the files on
  disk, and the record of driver calls. A statement maps a state to a result or a raised
  exception, and the state it leaves behind: state changes made before an exception
  is raised persist.
\<close>

record ('s, 'e, 'x) state =
  session :: 's
  calls :: "('e call \<times> ('e, 'x) outcome) list"
  one_mo_vals :: "string list"
  ytd_vals :: "string list"
  files :: "string \<Rightarrow> csv option"

type_synonym ('a, 's, 'e, 'x) prog =
  "('s, 'e, 'x) state \<Rightarrow> ('x exn + 'a) \<times> ('s, 'e, 'x) state"

definition preturn :: "'a \<Rightarrow> ('a, 's, 'e, 'x) prog" where
  "preturn a s = (Inr a, s)"

definition praise :: "'x exn \<Rightarrow> ('a, 's, 'e, 'x) prog" where
  "praise e s = (Inl e, s)"

definition pbind :: "('a, 's, 'e, 'x) prog \<Rightarrow> ('a \<Rightarrow> ('b, 's, 'e, 'x) prog) \<Rightarrow> ('b, 's, 'e, 'x) prog" where
  "pbind m f s = (case m s of (Inl e, s') \<Rightarrow> (Inl e, s') | (Inr a, s') \<Rightarrow> f a s')"

text \<open>\<open>try: m except: h\<close> with a bare \<open>except\<close>: every exception of \<open>m\<close> is caught.\<close>

definition try_except :: "('a, 's, 'e, 'x) prog \<Rightarrow> ('a, 's, 'e, 'x) prog \<Rightarrow> ('a, 's, 'e, 'x) prog" where
  "try_except m h s = (case m s of (Inl e, s') \<Rightarrow> h s' | (Inr a, s') \<Rightarrow> (Inr a, s'))"

text \<open>A driver call: run it on the session, record it, turn a raise into an exception.\<close>

definition driver_call ::
  "'e call \<Rightarrow> ('a \<Rightarrow> ('e, 'x) outcome) \<Rightarrow> ('s \<Rightarrow> ('x + 'a) \<times> 's) \<Rightarrow> ('a, 's, 'e, 'x) prog" where
  "driver_call c out f s =
     (case f (session s) of
        (Inl x, \<sigma>) \<Rightarrow> (Inl (DriverError x), s\<lparr>session := \<sigma>, calls := calls s @ [(c, Raised x)]\<rparr>)
      | (Inr a, \<sigma>) \<Rightarrow> (Inr a, s\<lparr>session := \<sigma>, calls := calls s @ [(c, out a)]\<rparr>))"

definition driver_get :: "('s, 'e, 'x) webdriver \<Rightarrow> string \<Rightarrow> (unit, 's, 'e, 'x) prog" where
  "driver_get d url = driver_call (Get url) (\<lambda>_. Returned) (drv_get d url)"

definition driver_find_element :: "('s, 'e, 'x) webdriver \<Rightarrow> By \<Rightarrow> string \<Rightarrow> ('e, 's, 'e, 'x) prog" where
  "driver_find_element d b x = driver_call (FindElement b x) ReturnedElement (drv_find_element d b x)"

definition element_click :: "('s, 'e, 'x) webdriver \<Rightarrow> 'e \<Rightarrow> (unit, 's, 'e, 'x) prog" where
  "element_click d el = driver_call (Click el) (\<lambda>_. Returned) (drv_click d el)"

definition element_text :: "('s, 'e, 'x) webdriver \<Rightarrow> 'e \<Rightarrow> (string, 's, 'e, 'x) prog" where
  "element_text d el = driver_call (Text el) ReturnedText (drv_text d el)"

definition driver_implicitly_wait :: "('s, 'e, 'x) webdriver \<Rightarrow> nat \<Rightarrow> (unit, 's, 'e, 'x) prog" where
  "driver_implicitly_wait d n = driver_call (ImplicitlyWait n) (\<lambda>_. Returned) (drv_implicitly_wait d n)"

section \<open>The scraper\<close>

text \<open>
  The string literals of \<open>scraper\<close>, each as it is written in the source: the search
  endpoint (line 147), the first search result (line 154), and for the ETF layout
  (lines 180, 186, 193, 194) and the fund layout (lines 198, 202, 206, 207) the
  performance tab, the monthly toggle and the two table cells.
\<close>

definition search_url :: string where
  "search_url =
     ''https://www.morningstar.com/search/us-securities?query=''"

definition link_xpath :: string where
  "link_xpath =
     ''//*[@id=\"__layout\"]/div/div/div[2]/div[3]/main/div/div/div[1]/section/div[1]/a''"

definition etf_performance_xpath :: string where
  "etf_performance_xpath =
     ''//*[@id=\"etf__tab-performance\"]/a/span''"

definition etf_monthly_xpath :: string where
  "etf_monthly_xpath =
     ''//*[@id=\"monthly\"]''"

definition etf_one_mo_xpath :: string where
  "etf_one_mo_xpath =
     ''//*[@id=\"__layout\"]/div/div/div[2]/div[3]/div/div[2]/main/div/div/div[1]/section/sal-components/div/sal-components-funds-performance/div/div[1]/div/div/div/div[2]/div[1]/section[2]/div/div/div/div/div[2]/div[1]/div/table/tbody/tr[1]/td[2]''"

definition etf_ytd_xpath :: string where
  "etf_ytd_xpath =
     ''//*[@id=\"__layout\"]/div/div/div[2]/div[3]/div/div[2]/main/div/div/div[1]/section/sal-components/div/sal-components-funds-performance/div/div[1]/div/div/div/div[2]/div[1]/section[2]/div/div/div/div/div[2]/div[1]/div/table/tbody/tr[1]/td[5]''"

definition fund_performance_xpath :: string where
  "fund_performance_xpath =
     ''//*[@id=\"performance\"]/a/span''"

definition fund_monthly_xpath :: string where
  "fund_monthly_xpath =
     ''//*[@id=\"monthly\"]''"

definition fund_one_mo_xpath :: string where
  "fund_one_mo_xpath =
     ''/html/body/div[2]/div/div/div/div[2]/div[3]/div/div[2]/main/div/div/div[1]/section/sal-components/div/sal-components-funds-performance/div/div[1]/div/div/div/div[2]/div[1]/section[2]/div/div/div/div/div[2]/div[1]/div/table/tbody/tr[1]/td[2]''"

definition fund_ytd_xpath :: string where
  "fund_ytd_xpath =
     ''/html/body/div[2]/div/div/div/div[2]/div[3]/div/div[2]/main/div/div/div[1]/section/sal-components/div/sal-components-funds-performance/div/div[1]/div/div/div/div[2]/div[1]/section[2]/div/div/div/div/div[2]/div[1]/div/table/tbody/tr[1]/td[5]''"

text \<open>Lines 147--163: the search URL, the first search result, the wait.\<close>

definition scraper_url :: "(string \<Rightarrow> string) \<Rightarrow> string \<Rightarrow> string" where
  "scraper_url lower_u ticker_name = search_url @ py_lower lower_u ticker_name"

definition navigate :: "(string \<Rightarrow> string) \<Rightarrow> ('s, 'e, 'x) webdriver \<Rightarrow> string \<Rightarrow> (unit, 's, 'e, 'x) prog" where
  "navigate lower_u d ticker_name =
     pbind (driver_get d (scraper_url lower_u ticker_name)) (\<lambda>_.
     pbind (driver_find_element d XPATH link_xpath) (\<lambda>link.
     pbind (element_click d link) (\<lambda>_.
     driver_implicitly_wait d 5)))"

text \<open>Lines 180--194: the body of the \<open>try\<close>.\<close>

definition etf_block :: "('s, 'e, 'x) webdriver \<Rightarrow> (string \<times> string, 's, 'e, 'x) prog" where
  "etf_block d =
     pbind (driver_find_element d XPATH etf_performance_xpath) (\<lambda>performance.
     pbind (element_click d performance) (\<lambda>_.
     pbind (driver_implicitly_wait d 5) (\<lambda>_.
     pbind (driver_find_element d XPATH etf_monthly_xpath) (\<lambda>monthly_button.
     pbind (element_click d monthly_button) (\<lambda>_.
     pbind (driver_implicitly_wait d 5) (\<lambda>_.
     pbind (driver_find_element d XPATH etf_one_mo_xpath) (\<lambda>one_mo_cell.
     pbind (element_text d one_mo_cell) (\<lambda>one_mo.
     pbind (driver_find_element d XPATH etf_ytd_xpath) (\<lambda>ytd_cell.
     pbind (element_text d ytd_cell) (\<lambda>ytd.
     preturn (one_mo, ytd)))))))))))"

text \<open>Lines 198--207: the body of the \<open>except\<close>.\<close>

definition fund_block :: "('s, 'e, 'x) webdriver \<Rightarrow> (string \<times> string, 's, 'e, 'x) prog" where
  "fund_block d =
     pbind (driver_find_element d XPATH fund_performance_xpath) (\<lambda>performance.
     pbind (element_click d performance) (\<lambda>_.
     pbind (driver_implicitly_wait d 5) (\<lambda>_.
     pbind (driver_find_element d XPATH fund_monthly_xpath) (\<lambda>monthly_button.
     pbind (element_click d monthly_button) (\<lambda>_.
     pbind (driver_implicitly_wait d 5) (\<lambda>_.
     pbind (driver_find_element d XPATH fund_one_mo_xpath) (\<lambda>one_mo_cell.
     pbind (element_text d one_mo_cell) (\<lambda>one_mo.
     pbind (driver_find_element d XPATH fund_ytd_xpath) (\<lambda>ytd_cell.
     pbind (element_text d ytd_cell) (\<lambda>ytd.
     preturn (one_mo, ytd)))))))))))"

text \<open>Lines 210--211: the two appends.\<close>

definition append_vals :: "string \<Rightarrow> string \<Rightarrow> (unit, 's, 'e, 'x) prog" where
  "append_vals one_mo ytd s =
     (Inr (), s\<lparr>one_mo_vals := one_mo_vals s @ [one_mo], ytd_vals := ytd_vals s @ [ytd]\<rparr>)"

text \<open>
  The values the scraper extracts (lines 147--207), and the scraper itself
  (lines 144--211), which returns nothing and appends them to the two lists.
\<close>

definition scrape :: "(string \<Rightarrow> string) \<Rightarrow> ('s, 'e, 'x) webdriver \<Rightarrow> string \<Rightarrow> (string \<times> string, 's, 'e, 'x) prog" where
  "scrape lower_u d ticker_name =
     pbind (navigate lower_u d ticker_name) (\<lambda>_. try_except (etf_block d) (fund_block d))"

definition scraper :: "(string \<Rightarrow> string) \<Rightarrow> ('s, 'e, 'x) webdriver \<Rightarrow> string \<Rightarrow> (unit, 's, 'e, 'x) prog" where
  "scraper lower_u d ticker_name =
     pbind (scrape lower_u d ticker_name) (\<lambda>(one_mo, ytd). append_vals one_mo ytd)"

text \<open>Lines 222--223: \<open>for ticker in df_tickers: scraper(ticker)\<close>.\<close>

fun batch :: "(string \<Rightarrow> string) \<Rightarrow> ('s, 'e, 'x) webdriver \<Rightarrow> string list \<Rightarrow> (unit, 's, 'e, 'x) prog" where
  "batch lower_u d [] s = (Inr (), s)"
| "batch lower_u d (ticker # tickers) s =
     (case scraper lower_u d ticker s of
        (Inl e, s') \<Rightarrow> (Inl e, s')
      | (Inr _, s') \<Rightarrow> batch lower_u d tickers s')"


section \<open>The pandas calls\<close>

text \<open>
  \<open>pd.read_csv(name, index_col=0)\<close> (line 54): the first column of the file becomes the
  row index and is no longer a column of the table; every column holds the values
  pandas infers from its fields; a missing file and an empty file raise. A line with
  fewer fields than the header is padded with missing fields. Lines with more fields
  than the header, and repeated or empty column names (which pandas renames), are
  outside the model: the theorems about files assume \<open>well_formed\<close>.
\<close>

definition field :: "string list \<Rightarrow> nat \<Rightarrow> string" where
  "field r j = (if j < length r then r ! j else [])"

definition csv_column :: "csv \<Rightarrow> nat \<Rightarrow> string list" where
  "csv_column f j = map (\<lambda>r. field r j) (rows f)"

definition well_formed :: "csv \<Rightarrow> bool" where
  "well_formed f =
     (header f \<noteq> [] \<and> distinct (header f) \<and> [] \<notin> set (tl (header f)) \<and>
      ''Unnamed: 0'' \<notin> set (tl (header f)) \<and>
      list_all (\<lambda>r. length r = length (header f)) (rows f))"

definition csv_table :: "'v pandas \<Rightarrow> csv \<Rightarrow> 'v dataframe" where
  "csv_table P f =
     \<lparr>df_index = map (infer P (csv_column f 0)) [0..<length (rows f)],
      df_columns = tl (header f),
      df_data = map (\<lambda>j. map (\<lambda>i. Inferred (infer P (csv_column f j) i)) [0..<length (rows f)])
                  [1..<length (header f)]\<rparr>"

definition read_csv :: "'v pandas \<Rightarrow> string \<Rightarrow> ('v dataframe, 's, 'e, 'x) prog" where
  "read_csv P name s =
     (case files s name of
        None \<Rightarrow> (Inl FileNotFoundError, s)
      | Some f \<Rightarrow>
          if header f = [] then (Inl EmptyDataError, s) else (Inr (csv_table P f), s))"

text \<open>
  \<open>df[["Ticker"]].Ticker.values.tolist()\<close> (line 133): the values of the column labelled
  \<open>Ticker\<close>, in row order; \<open>KeyError\<close> when no column has that label.
\<close>

definition df_tickers :: "'v dataframe \<Rightarrow> 'x exn + 'v cell list" where
  "df_tickers df =
     (case map_of (zip (df_columns df) (df_data df)) ''Ticker'' of
        None \<Rightarrow> Inl KeyError
      | Some col \<Rightarrow> Inr col)"

text \<open>
  \<open>str(ticker_name)\<close> (line 147), the only use the scraper makes of its argument: the
  \<open>str\<close> of an inferred value, and a str itself.
\<close>

fun cell_str :: "'v pandas \<Rightarrow> 'v cell \<Rightarrow> string" where
  "cell_str P (Inferred v) = str_of P v"
| "cell_str P (Str s) = s"

text \<open>
  \<open>df.insert(loc, column, value)\<close> (lines 243, 244): \<open>ValueError\<close> when the label is
  already a column, \<open>ValueError\<close> when the list is not as long as the index,
  \<open>IndexError\<close> when \<open>loc\<close> is beyond the number of columns; otherwise the new column
  stands at position \<open>loc\<close> and the columns from there on move one to the right.
\<close>

definition df_insert :: "nat \<Rightarrow> string \<Rightarrow> 'v cell list \<Rightarrow> 'v dataframe \<Rightarrow> 'x exn + 'v dataframe" where
  "df_insert loc column val df =
     (if column \<in> set (df_columns df) then Inl ValueError
      else if length val \<noteq> length (df_index df) then Inl ValueError
      else if length (df_columns df) < loc then Inl IndexError
      else Inr (df\<lparr>df_columns := take loc (df_columns df) @ [column] @ drop loc (df_columns df),
                   df_data := take loc (df_data df) @ [val] @ drop loc (df_data df)\<rparr>))"

text \<open>
  \<open>df.to_csv(name, index=False, encoding='utf-8')\<close> (line 251): the column labels and
  the rows are written, the row index is not. An inferred value is written as pandas
  writes it, a str as it is.
\<close>

fun cell_text :: "'v pandas \<Rightarrow> 'v cell \<Rightarrow> string" where
  "cell_text P (Inferred v) = written P v"
| "cell_text P (Str s) = s"

definition cell_at :: "'v pandas \<Rightarrow> 'v cell list \<Rightarrow> nat \<Rightarrow> string" where
  "cell_at P col i = (if i < length col then cell_text P (col ! i) else [])"

definition to_csv :: "'v pandas \<Rightarrow> 'v dataframe \<Rightarrow> string \<Rightarrow> (unit, 's, 'e, 'x) prog" where
  "to_csv P df name s =
     (Inr (), s\<lparr>files := (files s)(name \<mapsto>
        \<lparr>header = df_columns df,
         rows = map (\<lambda>i. map (\<lambda>col. cell_at P col i) (df_data df))
                  [0..<length (df_index df)]\<rparr>)\<rparr>)"

section \<open>The script\<close>

text \<open>
  The cells of the script that carry data, in the order of the file: the table is read
  (line 54), the two lists are created empty (lines 112, 113), the tickers are taken
  from the table (line 133), every ticker is scraped (lines 222, 223), the lists become
  columns 4 and 5 (lines 243, 244) and the table is written (line 251). An exception
  ends the run. The scraper is called on the \<open>str\<close> of each value of the ticker column,
  which is all it uses of its argument.

  The other statements of the file come before the loop and touch neither the table,
  the two lists nor the files: the installation of the package (line 29), the two
  \<open>pd.read_html\<close> demonstrations (lines 69--71 and 81--83, the first of which the
  notebook announces as raising) and the creation of the driver (lines 99, 100), whose
  session is the \<open>session\<close> of the initial state. The model is the run from the loaded
  table on.
\<close>

definition lift :: "'x exn + 'a \<Rightarrow> ('a, 's, 'e, 'x) prog" where
  "lift r s = (r, s)"

definition init_vals :: "(unit, 's, 'e, 'x) prog" where
  "init_vals s = (Inr (), s\<lparr>one_mo_vals := [], ytd_vals := []\<rparr>)"

definition script ::
  "'v pandas \<Rightarrow> (string \<Rightarrow> string) \<Rightarrow> ('s, 'e, 'x) webdriver \<Rightarrow> (unit, 's, 'e, 'x) prog" where
  "script P lower_u d =
     pbind (read_csv P ''demo_stock_data.csv'') (\<lambda>df.
     pbind init_vals (\<lambda>_.
     pbind (lift (df_tickers df)) (\<lambda>df_tickers.
     pbind (batch lower_u d (map (cell_str P) df_tickers)) (\<lambda>_.
     pbind (\<lambda>s. lift (df_insert 4 ''Monthly'' (map Str (one_mo_vals s)) df) s) (\<lambda>df1.
     pbind (\<lambda>s. lift (df_insert 5 ''YTD'' (map Str (ytd_vals s)) df1) s) (\<lambda>df2.
     to_csv P df2 ''updated_stonksdata.csv''))))))"

section \<open>Notions used in the statements\<close>

text \<open>
  Code that only talks to the driver leaves the two lists and the files alone and only
  adds to the record of calls; \<open>P\<close> bounds the calls it adds.
\<close>

definition frame :: "('e call \<Rightarrow> bool) \<Rightarrow> ('a, 's, 'e, 'x) prog \<Rightarrow> bool" where
  "frame P m =
     (\<forall>s. one_mo_vals (snd (m s)) = one_mo_vals s \<and> ytd_vals (snd (m s)) = ytd_vals s \<and>
          files (snd (m s)) = files s \<and>
          (\<exists>l. calls (snd (m s)) = calls s @ l \<and> list_all (\<lambda>co. P (fst co)) l))"

fun is_get :: "'e call \<Rightarrow> bool" where
  "is_get (Get u) = True"
| "is_get _ = False"

text \<open>
  The two table-cell locators of each layout are one path to the trailing-returns
  table, from the layout's own root, followed by the row and the column.
\<close>

definition etf_root :: string where
  "etf_root = ''//*[@id=\"__layout\"]''"

definition fund_root :: string where
  "fund_root = ''/html/body/div[2]/div''"

definition trailing_returns_table :: string where
  "trailing_returns_table =
     ''/div/div/div[2]/div[3]/div/div[2]/main/div/div/div[1]/section/sal-components/div/sal-components-funds-performance/div/div[1]/div/div/div/div[2]/div[1]/section[2]/div/div/div/div/div[2]/div[1]/div/table''"

text \<open>
  The sequence of driver calls of a layout path that runs to its end: the performance
  tab \<open>tab\<close>, the toggle \<open>toggle\<close>, the two cells, and the elements and texts the driver
  gave back.
\<close>

definition path_calls ::
  "string \<Rightarrow> string \<Rightarrow> string \<Rightarrow> string \<Rightarrow> 'e \<Rightarrow> 'e \<Rightarrow> 'e \<Rightarrow> 'e \<Rightarrow> string \<Rightarrow> string
     \<Rightarrow> ('e call \<times> ('e, 'x) outcome) list" where
  "path_calls tab toggle cell1 cell2 p m c1 c2 one_mo ytd =
     [(FindElement XPATH tab, ReturnedElement p), (Click p, Returned),
      (ImplicitlyWait 5, Returned),
      (FindElement XPATH toggle, ReturnedElement m), (Click m, Returned),
      (ImplicitlyWait 5, Returned),
      (FindElement XPATH cell1, ReturnedElement c1), (Text c1, ReturnedText one_mo),
      (FindElement XPATH cell2, ReturnedElement c2), (Text c2, ReturnedText ytd)]"

text \<open>
  The table the spec describes for a run in which every scrape succeeds. A row of the
  loaded table (the file without its first column) is written back as pandas writes
  the values it inferred; the written table has the columns of the loaded table with
  \<open>Monthly\<close> and \<open>YTD\<close> at positions 4 and 5, and in every row the two values of that
  row's ticker.
\<close>

definition loaded_row :: "'v pandas \<Rightarrow> csv \<Rightarrow> nat \<Rightarrow> string list" where
  "loaded_row P f i = map (\<lambda>j. written P (infer P (csv_column f j) i)) [1..<length (header f)]"

definition merged :: "'v pandas \<Rightarrow> csv \<Rightarrow> string list \<Rightarrow> string list \<Rightarrow> csv" where
  "merged P f ms ys =
     \<lparr>header = take 4 (tl (header f)) @ [''Monthly'', ''YTD''] @ drop 4 (tl (header f)),
      rows = map (\<lambda>(i, m, y). take 4 (loaded_row P f i) @ [m, y] @ drop 4 (loaded_row P f i))
               (zip [0..<length (rows f)] (zip ms ys))\<rparr>"

text \<open>
  The Unicode database on the letter U+00DF (LATIN SMALL LETTER SHARP S, in UTF-8 the
  bytes C3 9F): its lower case is the letter itself and its upper case is the two
  letters \<open>SS\<close>. The two functions below are \<open>str.lower\<close> and \<open>str.upper\<close> on strings made
  of ASCII characters and this letter; they are not meant for other strings.
\<close>

definition sharp_s :: string where
  "sharp_s = [CHR 0xC3, CHR 0x9F]"

definition sharp_s_lower :: "string \<Rightarrow> string" where
  "sharp_s_lower s = map ascii_tolower s"

fun sharp_s_upper :: "string \<Rightarrow> string" where
  "sharp_s_upper (c1 # c2 # cs) =
     (if c1 = CHR 0xC3 \<and> c2 = CHR 0x9F then ''SS'' @ sharp_s_upper cs
      else ascii_toupper c1 # sharp_s_upper (c2 # cs))"
| "sharp_s_upper [c] = [ascii_toupper c]"
| "sharp_s_upper [] = []"

section \<open>A scripted browser and a sample file\<close>

text \<open>
  A driver for running the script on concrete input. Its session is the URL last
  loaded and an element handle is the locator that found it. \<open>SPY\<close> has the ETF layout
  and \<open>VFIAX\<close> the fund layout; any other ticker has neither performance tab. The search
  for \<open>zzz\<close> has no result, the page for \<open>offline\<close> does not load, and the result link
  for \<open>stale\<close> cannot be clicked.
\<close>

definition stub :: "(string, string, string) webdriver" where
  "stub =
     \<lparr>drv_get = (\<lambda>url \<sigma>.
        if url = search_url @ ''offline'' then (Inl ''net::ERR_INTERNET_DISCONNECTED'', \<sigma>)
        else (Inr (), url)),
      drv_find_element = (\<lambda>b x \<sigma>.
        if x = link_xpath \<and> \<sigma> = search_url @ ''zzz'' then (Inl ''no such element'', \<sigma>)
        else if x = etf_performance_xpath \<and> \<sigma> \<noteq> search_url @ ''spy''
          then (Inl ''no such element'', \<sigma>)
        else if x = fund_performance_xpath \<and> \<sigma> \<noteq> search_url @ ''vfiax''
          then (Inl ''no such element'', \<sigma>)
        else (Inr x, \<sigma>)),
      drv_click = (\<lambda>el \<sigma>.
        if el = link_xpath \<and> \<sigma> = search_url @ ''stale'' then (Inl ''stale element'', \<sigma>)
        else (Inr (), \<sigma>)),
      drv_text = (\<lambda>el \<sigma>.
        (Inr (if \<sigma> = search_url @ ''spy''
              then (if el = etf_one_mo_xpath then ''1.23'' else ''10.45'')
              else (if el = fund_one_mo_xpath then ''0.98'' else ''9.11'')), \<sigma>)),
      drv_implicitly_wait = (\<lambda>n \<sigma>. (Inr (), \<sigma>))\<rparr>"

text \<open>
  pandas on a file all of whose fields are plain text, none reading as a number, a
  boolean or a missing value: every field is loaded as the str it is, and written
  back as it is.
\<close>

definition text_pandas :: "string pandas" where
  "text_pandas = \<lparr>infer = (\<lambda>col i. field col i), written = (\<lambda>v. v), str_of = (\<lambda>v. v)\<rparr>"

definition demo_file :: csv where
  "demo_file =
     \<lparr>header = [[], ''Ticker'', ''Name'', ''Category'', ''Exchange''],
      rows = [[''r0'', ''SPY'', ''SPDR S&P 500 ETF Trust'', ''ETF'', ''ARCX''],
              [''r1'', ''VFIAX'', ''Vanguard 500 Index Admiral'', ''Fund'', ''XNAS'']]\<rparr>"

definition demo_output :: csv where
  "demo_output =
     \<lparr>header = [''Ticker'', ''Name'', ''Category'', ''Exchange'', ''Monthly'', ''YTD''],
      rows = [[''SPY'', ''SPDR S&P 500 ETF Trust'', ''ETF'', ''ARCX'', ''1.23'', ''10.45''],
              [''VFIAX'', ''Vanguard 500 Index Admiral'', ''Fund'', ''XNAS'', ''0.98'', ''9.11'']]\<rparr>"

text \<open>The same file with a ticker in the middle that has neither layout.\<close>

definition demo_file_bnd :: csv where
  "demo_file_bnd =
     \<lparr>header = [[], ''Ticker'', ''Name'', ''Category'', ''Exchange''],
      rows = [[''r0'', ''SPY'', ''SPDR S&P 500 ETF Trust'', ''ETF'', ''ARCX''],
              [''r1'', ''BND'', ''Vanguard Total Bond Market'', ''ETF'', ''XNAS''],
              [''r2'', ''VFIAX'', ''Vanguard 500 Index Admiral'', ''Fund'', ''XNAS'']]\<rparr>"

definition demo_state_bnd :: "(string, string, string) state" where
  "demo_state_bnd =
     \<lparr>session = [], calls = [], one_mo_vals = [], ytd_vals = [],
      files = [''demo_stock_data.csv'' \<mapsto> demo_file_bnd]\<rparr>"

definition demo_state :: "(string, string, string) state" where
  "demo_state =
     \<lparr>session = [], calls = [], one_mo_vals = [], ytd_vals = [],
      files = [''demo_stock_data.csv'' \<mapsto> demo_file]\<rparr>"

section \<open>Control flow\<close>

lemma pbind_Inr: "m s = (Inr a, s1) \<Longrightarrow> pbind m f s = f a s1"
  by (simp add: pbind_def)

lemma pbind_Inr_iff:
  "pbind m f s = (Inr b, s') \<longleftrightarrow> (\<exists>a s1. m s = (Inr a, s1) \<and> f a s1 = (Inr b, s'))"
  by (auto simp: pbind_def split: prod.splits sum.splits)

lemma pbind_assoc: "pbind (pbind m f) g = pbind m (\<lambda>a. pbind (f a) g)"
  by (rule ext) (simp add: pbind_def split: prod.splits sum.splits)

section \<open>Driver calls\<close>

lemma driver_call_Inr_iff:
  "driver_call c out f s = (Inr a, s') \<longleftrightarrow>
     (\<exists>\<sigma>. f (session s) = (Inr a, \<sigma>) \<and> s' = s\<lparr>session := \<sigma>, calls := calls s @ [(c, out a)]\<rparr>)"
  by (auto simp: driver_call_def split: prod.splits sum.splits)

lemma driver_call_run:
  "driver_call c out f s = (r, s') \<Longrightarrow>
     one_mo_vals s' = one_mo_vals s \<and> ytd_vals s' = ytd_vals s \<and> files s' = files s \<and>
     (\<exists>out'. calls s' = calls s @ [(c, out')])"
  by (auto simp: driver_call_def split: prod.splits sum.splits)

section \<open>What driver-only code leaves alone\<close>

lemma frameD:
  "frame P m \<Longrightarrow> m s = (r, s') \<Longrightarrow>
     one_mo_vals s' = one_mo_vals s \<and> ytd_vals s' = ytd_vals s \<and> files s' = files s \<and>
     (\<exists>l. calls s' = calls s @ l \<and> list_all (\<lambda>co. P (fst co)) l)"
  unfolding frame_def by (metis snd_conv)

lemma frameI:
  assumes "\<And>s r s'. m s = (r, s') \<Longrightarrow>
     one_mo_vals s' = one_mo_vals s \<and> ytd_vals s' = ytd_vals s \<and> files s' = files s \<and>
     (\<exists>l. calls s' = calls s @ l \<and> list_all (\<lambda>co. P (fst co)) l)"
  shows "frame P m"
  unfolding frame_def using assms by (metis prod.collapse)

lemma frame_preturn: "frame P (preturn a)"
  by (simp add: frame_def preturn_def)

lemma frame_driver_call: "P c \<Longrightarrow> frame P (driver_call c out f)"
  by (rule frameI) (auto dest: driver_call_run)

lemma frame_pbind:
  assumes m: "frame P m" and f: "\<And>a. frame P (f a)"
  shows "frame P (pbind m f)"
proof (rule frameI)
  fix s r s'
  assume run: "pbind m f s = (r, s')"
  obtain r1 s1 where ms: "m s = (r1, s1)" by (cases "m s")
  note 1 = frameD [OF m ms]
  show "one_mo_vals s' = one_mo_vals s \<and> ytd_vals s' = ytd_vals s \<and> files s' = files s \<and>
     (\<exists>l. calls s' = calls s @ l \<and> list_all (\<lambda>co. P (fst co)) l)"
  proof (cases r1)
    case (Inl e)
    with ms run have "s' = s1" by (simp add: pbind_def)
    with 1 show ?thesis by simp
  next
    case (Inr a)
    with ms run have "f a s1 = (r, s')" by (simp add: pbind_def)
    from frameD [OF f this] 1 show ?thesis by auto
  qed
qed

lemma frame_try_except:
  assumes m: "frame P m" and h: "frame P h"
  shows "frame P (try_except m h)"
proof (rule frameI)
  fix s r s'
  assume run: "try_except m h s = (r, s')"
  obtain r1 s1 where ms: "m s = (r1, s1)" by (cases "m s")
  note 1 = frameD [OF m ms]
  show "one_mo_vals s' = one_mo_vals s \<and> ytd_vals s' = ytd_vals s \<and> files s' = files s \<and>
     (\<exists>l. calls s' = calls s @ l \<and> list_all (\<lambda>co. P (fst co)) l)"
  proof (cases r1)
    case (Inl e)
    with ms run have "h s1 = (r, s')" by (simp add: try_except_def)
    from frameD [OF h this] 1 show ?thesis by auto
  next
    case (Inr a)
    with ms run have "s' = s1" by (simp add: try_except_def)
    with 1 show ?thesis by simp
  qed
qed

lemma frame_driver_find_element: "P (FindElement b x) \<Longrightarrow> frame P (driver_find_element d b x)"
  by (simp add: driver_find_element_def frame_driver_call)

lemma frame_element_click: "P (Click el) \<Longrightarrow> frame P (element_click d el)"
  by (simp add: element_click_def frame_driver_call)

lemma frame_element_text: "P (Text el) \<Longrightarrow> frame P (element_text d el)"
  by (simp add: element_text_def frame_driver_call)

lemma frame_driver_implicitly_wait: "P (ImplicitlyWait n) \<Longrightarrow> frame P (driver_implicitly_wait d n)"
  by (simp add: driver_implicitly_wait_def frame_driver_call)

lemmas frame_intros = frame_pbind frame_try_except frame_preturn frame_driver_find_element
  frame_element_click frame_element_text frame_driver_implicitly_wait

lemma frame_etf_block: "frame (\<lambda>c. \<not> is_get c) (etf_block d)"
  unfolding etf_block_def by (intro frame_intros) simp_all

lemma frame_fund_block: "frame (\<lambda>c. \<not> is_get c) (fund_block d)"
  unfolding fund_block_def by (intro frame_intros) simp_all

section \<open>The calls and the effects of one scrape\<close>

lemma first_call_pbind:
  assumes f: "\<And>a. frame P (f a)" and run: "pbind (driver_call c out g) f s = (r, s')"
  shows "one_mo_vals s' = one_mo_vals s \<and> ytd_vals s' = ytd_vals s \<and> files s' = files s \<and>
     (\<exists>out' l. calls s' = calls s @ (c, out') # l \<and> list_all (\<lambda>co. P (fst co)) l)"
proof -
  obtain r1 s1 where ms: "driver_call c out g s = (r1, s1)" by (cases "driver_call c out g s")
  note 1 = driver_call_run [OF ms]
  show ?thesis
  proof (cases r1)
    case (Inl e)
    with ms run have "s' = s1" by (simp add: pbind_def)
    with 1 show ?thesis by auto
  next
    case (Inr a)
    with ms run have "f a s1 = (r, s')" by (simp add: pbind_def)
    from frameD [OF f this] 1 show ?thesis by auto
  qed
qed

lemma scrape_run:
  assumes "scrape L d t s = (r, s')"
  shows "one_mo_vals s' = one_mo_vals s \<and> ytd_vals s' = ytd_vals s \<and> files s' = files s \<and>
     (\<exists>out' l. calls s' = calls s @ (Get (search_url @ py_lower L t), out') # l \<and>
        list_all (\<lambda>co. \<not> is_get (fst co)) l)"
proof (rule first_call_pbind)
  show "pbind (driver_call (Get (search_url @ py_lower L t)) (\<lambda>_. Returned)
           (drv_get d (search_url @ py_lower L t)))
         (\<lambda>_. pbind (driver_find_element d XPATH link_xpath) (\<lambda>link.
           pbind (element_click d link) (\<lambda>_.
           pbind (driver_implicitly_wait d 5) (\<lambda>_. try_except (etf_block d) (fund_block d))))) s
        = (r, s')"
    using assms
    by (simp add: scrape_def navigate_def pbind_assoc driver_get_def scraper_url_def)
next
  fix a :: unit
  show "frame (\<lambda>c. \<not> is_get c) (pbind (driver_find_element d XPATH link_xpath) (\<lambda>link.
           pbind (element_click d link) (\<lambda>_.
           pbind (driver_implicitly_wait d 5) (\<lambda>_. try_except (etf_block d) (fund_block d)))))"
    by (intro frame_intros frame_etf_block frame_fund_block) simp_all
qed

lemma scraper_unfold:
  "scraper L d t s =
     (case scrape L d t s of
        (Inl e, s1) \<Rightarrow> (Inl e, s1)
      | (Inr (one_mo, ytd), s1) \<Rightarrow>
          (Inr (), s1\<lparr>one_mo_vals := one_mo_vals s1 @ [one_mo], ytd_vals := ytd_vals s1 @ [ytd]\<rparr>))"
  by (simp add: scraper_def pbind_def append_vals_def split: prod.splits sum.splits)

lemma scraper_Inl:
  assumes "scraper L d t s = (Inl e, s')"
  shows "scrape L d t s = (Inl e, s')"
  using assms by (auto simp: scraper_unfold split: prod.splits sum.splits)

lemma scraper_Inr:
  assumes "scraper L d t s = (Inr u, s')"
  shows "\<exists>one_mo ytd s1. scrape L d t s = (Inr (one_mo, ytd), s1) \<and>
     s' = s1\<lparr>one_mo_vals := one_mo_vals s @ [one_mo], ytd_vals := ytd_vals s @ [ytd]\<rparr>"
proof -
  from assms obtain one_mo ytd s1 where 1: "scrape L d t s = (Inr (one_mo, ytd), s1)"
    and 2: "s' = s1\<lparr>one_mo_vals := one_mo_vals s1 @ [one_mo], ytd_vals := ytd_vals s1 @ [ytd]\<rparr>"
    by (auto simp: scraper_unfold split: prod.splits sum.splits)
  from scrape_run [OF 1] 2 have "s' = s1\<lparr>one_mo_vals := one_mo_vals s @ [one_mo], ytd_vals := ytd_vals s @ [ytd]\<rparr>"
    by simp
  with 1 show ?thesis by blast
qed

lemma scraper_run:
  assumes "scraper L d t s = (r, s')"
  shows "files s' = files s \<and>
     (\<exists>out' l. calls s' = calls s @ (Get (search_url @ py_lower L t), out') # l \<and>
        list_all (\<lambda>co. \<not> is_get (fst co)) l)"
proof (cases r)
  case (Inl e)
  with assms have "scrape L d t s = (Inl e, s')" by (simp add: scraper_Inl)
  from scrape_run [OF this] show ?thesis by simp
next
  case (Inr u)
  with assms obtain one_mo ytd s1 where 1: "scrape L d t s = (Inr (one_mo, ytd), s1)"
    and 2: "s' = s1\<lparr>one_mo_vals := one_mo_vals s @ [one_mo], ytd_vals := ytd_vals s @ [ytd]\<rparr>"
    by (blast dest: scraper_Inr)
  from scrape_run [OF 1] 2 show ?thesis by simp
qed

section \<open>The search URL\<close>

text \<open>
  Claim C5. For every ticker symbol string, the first call the scraper makes to the
  driver is \<open>get\<close> on the search endpoint
  \<open>https://www.morningstar.com/search/us-securities?query=\<close> followed by the lower-cased
  ticker: whatever the driver does and however the call ends, the record of calls after
  \<open>scraper\<close> is the record before it, then that \<open>get\<close>, then the rest.
\<close>

theorem scraper_first_action:
  "\<exists>out rest. calls (snd (scraper lower_u d ticker_name s)) =
     calls s @ (Get (''https://www.morningstar.com/search/us-securities?query=''
       @ py_lower lower_u ticker_name), out) # rest"
proof -
  obtain r s' where run: "scraper lower_u d ticker_name s = (r, s')"
    by (cases "scraper lower_u d ticker_name s")
  from scraper_run [OF run] run show ?thesis by (auto simp: search_url_def)
qed

text \<open>On the scripted browser: \<open>SPY\<close> is looked up as \<open>spy\<close>, and \<open>vfiax\<close> as it is.\<close>

theorem scraper_first_action_witness:
  "fst (hd (calls (snd (scraper id stub ''SPY'' demo_state))))
     = Get ''https://www.morningstar.com/search/us-securities?query=spy'' \<and>
   fst (hd (calls (snd (scraper id stub ''vfiax'' demo_state))))
     = Get ''https://www.morningstar.com/search/us-securities?query=vfiax''"
proof -
  have l: "py_lower id ''SPY'' = ''spy''" "py_lower id ''vfiax'' = ''vfiax''"
    by code_simp+
  have c: "calls demo_state = []"
    by (simp add: demo_state_def)
  from scraper_first_action [of id stub "''SPY''" demo_state]
    scraper_first_action [of id stub "''vfiax''" demo_state]
  show ?thesis
    unfolding l c by auto
qed

section \<open>A layout path that runs to its end\<close>

lemmas driver_defs = driver_get_def driver_find_element_def element_click_def
  element_text_def driver_implicitly_wait_def

lemma etf_block_Inr:
  assumes "etf_block d s = (Inr (one_mo, ytd), s')"
  shows "\<exists>p m c1 c2. calls s' = calls s @
     path_calls etf_performance_xpath etf_monthly_xpath etf_one_mo_xpath etf_ytd_xpath
       p m c1 c2 one_mo ytd"
  using assms
  by (auto simp: etf_block_def pbind_Inr_iff driver_defs driver_call_Inr_iff preturn_def
      path_calls_def)

lemma fund_block_Inr:
  assumes "fund_block d s = (Inr (one_mo, ytd), s')"
  shows "\<exists>p m c1 c2. calls s' = calls s @
     path_calls fund_performance_xpath fund_monthly_xpath fund_one_mo_xpath fund_ytd_xpath
       p m c1 c2 one_mo ytd"
  using assms
  by (auto simp: fund_block_def pbind_Inr_iff driver_defs driver_call_Inr_iff preturn_def
      path_calls_def)

lemma locators:
  "etf_monthly_xpath = ''//*[@id=\"monthly\"]''"
  "fund_monthly_xpath = ''//*[@id=\"monthly\"]''"
  "etf_one_mo_xpath = etf_root @ trailing_returns_table @ ''/tbody/tr[1]/td[2]''"
  "etf_ytd_xpath = etf_root @ trailing_returns_table @ ''/tbody/tr[1]/td[5]''"
  "fund_one_mo_xpath = fund_root @ trailing_returns_table @ ''/tbody/tr[1]/td[2]''"
  "fund_ytd_xpath = fund_root @ trailing_returns_table @ ''/tbody/tr[1]/td[5]''"
  by (simp_all add: etf_monthly_xpath_def fund_monthly_xpath_def etf_one_mo_xpath_def
      etf_ytd_xpath_def fund_one_mo_xpath_def fund_ytd_xpath_def etf_root_def fund_root_def
      trailing_returns_table_def)

section \<open>Running on the scripted browser\<close>

lemma xpath_neq:
  "etf_performance_xpath \<noteq> link_xpath" "etf_monthly_xpath \<noteq> link_xpath"
  "etf_one_mo_xpath \<noteq> link_xpath" "etf_ytd_xpath \<noteq> link_xpath"
  "fund_performance_xpath \<noteq> link_xpath" "fund_monthly_xpath \<noteq> link_xpath"
  "fund_one_mo_xpath \<noteq> link_xpath" "fund_ytd_xpath \<noteq> link_xpath"
  "link_xpath \<noteq> etf_performance_xpath" "etf_monthly_xpath \<noteq> etf_performance_xpath"
  "etf_one_mo_xpath \<noteq> etf_performance_xpath" "etf_ytd_xpath \<noteq> etf_performance_xpath"
  "fund_performance_xpath \<noteq> etf_performance_xpath"
  "fund_monthly_xpath \<noteq> etf_performance_xpath"
  "fund_one_mo_xpath \<noteq> etf_performance_xpath" "fund_ytd_xpath \<noteq> etf_performance_xpath"
  "link_xpath \<noteq> fund_performance_xpath" "etf_monthly_xpath \<noteq> fund_performance_xpath"
  "etf_one_mo_xpath \<noteq> fund_performance_xpath" "etf_ytd_xpath \<noteq> fund_performance_xpath"
  "etf_performance_xpath \<noteq> fund_performance_xpath"
  "fund_monthly_xpath \<noteq> fund_performance_xpath"
  "fund_one_mo_xpath \<noteq> fund_performance_xpath" "fund_ytd_xpath \<noteq> fund_performance_xpath"
  "etf_ytd_xpath \<noteq> etf_one_mo_xpath" "fund_ytd_xpath \<noteq> fund_one_mo_xpath"
  "etf_ytd_xpath \<noteq> fund_one_mo_xpath" "fund_ytd_xpath \<noteq> etf_one_mo_xpath"
  "etf_one_mo_xpath \<noteq> fund_one_mo_xpath" "fund_one_mo_xpath \<noteq> etf_one_mo_xpath"
  by (simp_all add: link_xpath_def etf_performance_xpath_def etf_monthly_xpath_def
      etf_one_mo_xpath_def etf_ytd_xpath_def fund_performance_xpath_def fund_monthly_xpath_def
      fund_one_mo_xpath_def fund_ytd_xpath_def)

lemma lower_tickers:
  "py_lower id ''SPY'' = ''spy''" "py_lower id ''VFIAX'' = ''vfiax''"
  "py_lower id ''BND'' = ''bnd''" "py_lower id ''zzz'' = ''zzz''"
  "py_lower id ''offline'' = ''offline''" "py_lower id ''stale'' = ''stale''"
  by code_simp+

lemmas run_defs = pbind_def try_except_def preturn_def driver_call_def driver_defs
  append_vals_def stub_def demo_state_def scraper_url_def scraper_def scrape_def navigate_def
  etf_block_def fund_block_def

section \<open>Failures before the \<open>try\<close>\<close>

text \<open>
  Claim C10. The fund-layout fallback covers only the ETF-layout step. When loading the
  search URL raises, or locating the first search result raises, or clicking it raises,
  the scraper raises that same exception, and the calls it has made end with the call
  that raised: no locator of the fund layout (nor of the ETF layout) was ever queried.
\<close>

theorem navigation_failure_not_caught:
  "(drv_get d (search_url @ py_lower lower_u ticker_name) (session s) = (Inl x, \<sigma>) \<longrightarrow>
      scraper lower_u d ticker_name s =
        (Inl (DriverError x),
         s\<lparr>session := \<sigma>,
           calls := calls s @ [(Get (search_url @ py_lower lower_u ticker_name), Raised x)]\<rparr>)) \<and>
   (drv_get d (search_url @ py_lower lower_u ticker_name) (session s) = (Inr (), \<sigma>1) \<and>
    drv_find_element d XPATH link_xpath \<sigma>1 = (Inl x, \<sigma>) \<longrightarrow>
      scraper lower_u d ticker_name s =
        (Inl (DriverError x),
         s\<lparr>session := \<sigma>,
           calls := calls s @ [(Get (search_url @ py_lower lower_u ticker_name), Returned),
                               (FindElement XPATH link_xpath, Raised x)]\<rparr>)) \<and>
   (drv_get d (search_url @ py_lower lower_u ticker_name) (session s) = (Inr (), \<sigma>1) \<and>
    drv_find_element d XPATH link_xpath \<sigma>1 = (Inr link, \<sigma>2) \<and>
    drv_click d link \<sigma>2 = (Inl x, \<sigma>) \<longrightarrow>
      scraper lower_u d ticker_name s =
        (Inl (DriverError x),
         s\<lparr>session := \<sigma>,
           calls := calls s @ [(Get (search_url @ py_lower lower_u ticker_name), Returned),
                               (FindElement XPATH link_xpath, ReturnedElement link),
                               (Click link, Raised x)]\<rparr>))"
  by (simp add: scraper_def scrape_def navigate_def scraper_url_def pbind_def driver_defs
      driver_call_def)

theorem navigation_failure_not_caught_witness:
  "drv_get stub (search_url @ py_lower id ''offline'') (session demo_state)
     = (Inl ''net::ERR_INTERNET_DISCONNECTED'', []) \<and>
   fst (scraper id stub ''offline'' demo_state) = Inl (DriverError ''net::ERR_INTERNET_DISCONNECTED'') \<and>
   map fst (calls (snd (scraper id stub ''offline'' demo_state))) = [Get (search_url @ ''offline'')] \<and>
   drv_get stub (search_url @ py_lower id ''zzz'') (session demo_state)
     = (Inr (), search_url @ ''zzz'') \<and>
   drv_find_element stub XPATH link_xpath (search_url @ ''zzz'')
     = (Inl ''no such element'', search_url @ ''zzz'') \<and>
   fst (scraper id stub ''zzz'' demo_state) = Inl (DriverError ''no such element'') \<and>
   map fst (calls (snd (scraper id stub ''zzz'' demo_state)))
     = [Get (search_url @ ''zzz''), FindElement XPATH link_xpath] \<and>
   drv_get stub (search_url @ py_lower id ''stale'') (session demo_state)
     = (Inr (), search_url @ ''stale'') \<and>
   drv_find_element stub XPATH link_xpath (search_url @ ''stale'')
     = (Inr link_xpath, search_url @ ''stale'') \<and>
   drv_click stub link_xpath (search_url @ ''stale'')
     = (Inl ''stale element'', search_url @ ''stale'') \<and>
   fst (scraper id stub ''stale'' demo_state) = Inl (DriverError ''stale element'') \<and>
   map fst (calls (snd (scraper id stub ''stale'' demo_state)))
     = [Get (search_url @ ''stale''), FindElement XPATH link_xpath, Click link_xpath]"
proof -
  have a: "drv_get stub (search_url @ py_lower id ''offline'') (session demo_state)
     = (Inl ''net::ERR_INTERNET_DISCONNECTED'', [])"
    by (simp add: stub_def demo_state_def lower_tickers)
  have b1: "drv_get stub (search_url @ py_lower id ''zzz'') (session demo_state)
     = (Inr (), search_url @ ''zzz'')"
    by (simp add: stub_def demo_state_def lower_tickers)
  have b2: "drv_find_element stub XPATH link_xpath (search_url @ ''zzz'')
     = (Inl ''no such element'', search_url @ ''zzz'')"
    by (simp add: stub_def)
  have c1: "drv_get stub (search_url @ py_lower id ''stale'') (session demo_state)
     = (Inr (), search_url @ ''stale'')"
    by (simp add: stub_def demo_state_def lower_tickers)
  have c2: "drv_find_element stub XPATH link_xpath (search_url @ ''stale'')
     = (Inr link_xpath, search_url @ ''stale'')"
    by (simp add: stub_def xpath_neq)
  have c3: "drv_click stub link_xpath (search_url @ ''stale'')
     = (Inl ''stale element'', search_url @ ''stale'')"
    by (simp add: stub_def)
  note t = navigation_failure_not_caught [where lower_u = id and d = stub and s = demo_state]
  from t [where ticker_name = "''offline''", THEN conjunct1, rule_format, OF a]
    t [where ticker_name = "''zzz''", THEN conjunct2, THEN conjunct1, rule_format, OF conjI, OF b1 b2]
    t [where ticker_name = "''stale''", THEN conjunct2, THEN conjunct2, rule_format,
       OF conjI, OF c1 conjI, OF c2 c3]
    a b1 b2 c1 c2 c3
  show ?thesis by (simp add: lower_tickers demo_state_def)
qed

section \<open>The two lists\<close>

lemma scraper_vals:
  assumes "scraper L d t s = (r, s')"
  shows "case r of
      Inl e \<Rightarrow> one_mo_vals s' = one_mo_vals s \<and> ytd_vals s' = ytd_vals s
    | Inr u \<Rightarrow> \<exists>one_mo ytd. one_mo_vals s' = one_mo_vals s @ [one_mo] \<and>
        ytd_vals s' = ytd_vals s @ [ytd]"
proof (cases r)
  case (Inl e)
  with assms have "scrape L d t s = (Inl e, s')" by (simp add: scraper_Inl)
  from scrape_run [OF this] Inl show ?thesis by simp
next
  case (Inr u)
  with assms scraper_Inr [of L d t s u s'] show ?thesis by auto
qed

lemma scraper_vals_length:
  assumes "length (one_mo_vals s) = length (ytd_vals s)"
  shows "length (one_mo_vals (snd (scraper L d t s))) = length (ytd_vals (snd (scraper L d t s)))"
proof -
  obtain r s' where run: "scraper L d t s = (r, s')" by (cases "scraper L d t s")
  from scraper_vals [OF run] assms run show ?thesis by (cases r) auto
qed

lemma batch_vals_length:
  "length (one_mo_vals s) = length (ytd_vals s) \<Longrightarrow>
     length (one_mo_vals (snd (batch L d ts s))) = length (ytd_vals (snd (batch L d ts s)))"
proof (induction ts arbitrary: s)
  case Nil
  then show ?case by simp
next
  case (Cons t ts)
  obtain r s' where run: "scraper L d t s = (r, s')" by (cases "scraper L d t s")
  from scraper_vals_length [OF Cons.prems, of L d t] run
  have len: "length (one_mo_vals s') = length (ytd_vals s')" by simp
  show ?case
  proof (cases r)
    case (Inl e)
    with run len show ?thesis by simp
  next
    case (Inr u)
    with run Cons.IH [OF len] show ?thesis by simp
  qed
qed

text \<open>
  Claim C9. A call of the scraper that raises leaves both lists as they were, and a call
  that returns has appended exactly one element to each. So the two lists have equal
  length after every call of the scraper, and after the batch loop however it ends,
  whenever they had equal length before.
\<close>

theorem vals_equal_length:
  "(case scraper lower_u d ticker_name s of
      (Inl e, s') \<Rightarrow> one_mo_vals s' = one_mo_vals s \<and> ytd_vals s' = ytd_vals s
    | (Inr u, s') \<Rightarrow> (\<exists>one_mo ytd. one_mo_vals s' = one_mo_vals s @ [one_mo] \<and>
         ytd_vals s' = ytd_vals s @ [ytd])) \<and>
   (length (one_mo_vals s) = length (ytd_vals s) \<longrightarrow>
      length (one_mo_vals (snd (scraper lower_u d ticker_name s)))
        = length (ytd_vals (snd (scraper lower_u d ticker_name s))) \<and>
      length (one_mo_vals (snd (batch lower_u d tickers s)))
        = length (ytd_vals (snd (batch lower_u d tickers s))))"
proof -
  obtain r s' where run: "scraper lower_u d ticker_name s = (r, s')"
    by (cases "scraper lower_u d ticker_name s")
  from scraper_vals [OF run] run
  have "case scraper lower_u d ticker_name s of
      (Inl e, s') \<Rightarrow> one_mo_vals s' = one_mo_vals s \<and> ytd_vals s' = ytd_vals s
    | (Inr u, s') \<Rightarrow> (\<exists>one_mo ytd. one_mo_vals s' = one_mo_vals s @ [one_mo] \<and>
         ytd_vals s' = ytd_vals s @ [ytd])"
    by (cases r) auto
  then show ?thesis
    using scraper_vals_length batch_vals_length by blast
qed

lemma run_SPY:
  "fst (scraper id stub ''SPY'' demo_state) = Inr ()"
  "one_mo_vals (snd (scraper id stub ''SPY'' demo_state)) = [''1.23'']"
  "ytd_vals (snd (scraper id stub ''SPY'' demo_state)) = [''10.45'']"
  by (simp_all add: run_defs xpath_neq lower_tickers)

theorem vals_equal_length_witness:
  "length (one_mo_vals demo_state) = length (ytd_vals demo_state) \<and>
   one_mo_vals (snd (scraper id stub ''SPY'' demo_state)) = [''1.23''] \<and>
   ytd_vals (snd (scraper id stub ''SPY'' demo_state)) = [''10.45''] \<and>
   length (one_mo_vals (snd (batch id stub [''SPY'', ''BND'', ''VFIAX''] demo_state)))
     = length (ytd_vals (snd (batch id stub [''SPY'', ''BND'', ''VFIAX''] demo_state)))"
proof -
  have h: "length (one_mo_vals demo_state) = length (ytd_vals demo_state)"
    by (simp add: demo_state_def)
  from vals_equal_length [where lower_u = id and d = stub and ticker_name = "''SPY''"
      and s = demo_state and tickers = "[''SPY'', ''BND'', ''VFIAX'']",
      THEN conjunct2, rule_format, OF h] h run_SPY
  show ?thesis by simp
qed

lemma pair_fstI: "fst p = a \<Longrightarrow> p = (a, snd p)"
  by (cases p) simp

lemma batch_append:
  "batch L d (xs @ ys) s =
     (case batch L d xs s of (Inl e, s') \<Rightarrow> (Inl e, s') | (Inr u, s') \<Rightarrow> batch L d ys s')"
  by (induction xs arbitrary: s) (auto split: prod.splits sum.splits)

lemma scraper_navigate_Inl:
  "navigate L d t s = (Inl e, s') \<Longrightarrow> scraper L d t s = (Inl e, s')"
  by (simp add: scraper_def scrape_def pbind_def)

lemma scraper_etf_Inl:
  "navigate L d t s = (Inr (), s1) \<Longrightarrow> etf_block d s1 = (Inl e, s2) \<Longrightarrow>
     scraper L d t s =
       (case fund_block d s2 of
          (Inl e', s3) \<Rightarrow> (Inl e', s3)
        | (Inr (one_mo, ytd), s3) \<Rightarrow>
            (Inr (), s3\<lparr>one_mo_vals := one_mo_vals s3 @ [one_mo],
                         ytd_vals := ytd_vals s3 @ [ytd]\<rparr>))"
  by (simp add: scraper_def scrape_def pbind_def try_except_def append_vals_def
      split: prod.splits sum.splits)

section \<open>The fallback\<close>

text \<open>
  Claim C1. When the navigation has succeeded and the ETF-layout path raises, whatever
  the exception, the scraper goes on with the fund-layout path from the session the
  failed attempt left behind: it raises what the fund path raises, and when the fund
  path returns two texts it appends them to the two lists. A fund path that returns
  has made the calls of the same sequence (tab, click, wait, toggle, click, wait, cell,
  text, cell, text) with the fund layout's locators.
\<close>

theorem scraper_fallback:
  "navigate lower_u d ticker_name s = (Inr (), s1) \<Longrightarrow> etf_block d s1 = (Inl e, s2) \<Longrightarrow>
     scraper lower_u d ticker_name s =
       (case fund_block d s2 of
          (Inl e', s3) \<Rightarrow> (Inl e', s3)
        | (Inr (one_mo, ytd), s3) \<Rightarrow>
            (Inr (), s3\<lparr>one_mo_vals := one_mo_vals s3 @ [one_mo],
                         ytd_vals := ytd_vals s3 @ [ytd]\<rparr>)) \<and>
     (\<forall>one_mo ytd s3. fund_block d s2 = (Inr (one_mo, ytd), s3) \<longrightarrow>
        (\<exists>p m c1 c2. calls s3 = calls s2 @
           path_calls fund_performance_xpath fund_monthly_xpath fund_one_mo_xpath fund_ytd_xpath
             p m c1 c2 one_mo ytd))"
  using scraper_etf_Inl fund_block_Inr by blast

lemma run_VFIAX:
  "fst (navigate id stub ''VFIAX'' demo_state) = Inr ()"
  "fst (etf_block stub (snd (navigate id stub ''VFIAX'' demo_state)))
     = Inl (DriverError ''no such element'')"
  "fst (fund_block stub (snd (etf_block stub (snd (navigate id stub ''VFIAX'' demo_state)))))
     = Inr (''0.98'', ''9.11'')"
  "fst (scraper id stub ''VFIAX'' demo_state) = Inr ()"
  "one_mo_vals (snd (scraper id stub ''VFIAX'' demo_state)) = [''0.98'']"
  "ytd_vals (snd (scraper id stub ''VFIAX'' demo_state)) = [''9.11'']"
  by (simp_all add: run_defs xpath_neq lower_tickers)

theorem scraper_fallback_witness:
  "fst (navigate id stub ''VFIAX'' demo_state) = Inr () \<and>
   fst (etf_block stub (snd (navigate id stub ''VFIAX'' demo_state)))
     = Inl (DriverError ''no such element'') \<and>
   fst (fund_block stub (snd (etf_block stub (snd (navigate id stub ''VFIAX'' demo_state)))))
     = Inr (''0.98'', ''9.11'') \<and>
   fst (scraper id stub ''VFIAX'' demo_state) = Inr () \<and>
   one_mo_vals (snd (scraper id stub ''VFIAX'' demo_state)) = [''0.98''] \<and>
   ytd_vals (snd (scraper id stub ''VFIAX'' demo_state)) = [''9.11''] \<and>
   (\<exists>p m c1 c2.
      calls (snd (fund_block stub (snd (etf_block stub (snd (navigate id stub ''VFIAX'' demo_state))))))
      = calls (snd (etf_block stub (snd (navigate id stub ''VFIAX'' demo_state)))) @
        path_calls fund_performance_xpath fund_monthly_xpath fund_one_mo_xpath fund_ytd_xpath
          p m c1 c2 ''0.98'' ''9.11'')"
proof -
  have n: "navigate id stub ''VFIAX'' demo_state
      = (Inr (), snd (navigate id stub ''VFIAX'' demo_state))"
    by (rule pair_fstI) (rule run_VFIAX)
  have e: "etf_block stub (snd (navigate id stub ''VFIAX'' demo_state))
      = (Inl (DriverError ''no such element''),
         snd (etf_block stub (snd (navigate id stub ''VFIAX'' demo_state))))"
    by (rule pair_fstI) (rule run_VFIAX)
  have f: "fund_block stub (snd (etf_block stub (snd (navigate id stub ''VFIAX'' demo_state))))
      = (Inr (''0.98'', ''9.11''),
         snd (fund_block stub (snd (etf_block stub (snd (navigate id stub ''VFIAX'' demo_state))))))"
    by (rule pair_fstI) (rule run_VFIAX)
  from scraper_fallback [OF n e, THEN conjunct2, rule_format, OF f] run_VFIAX
  show ?thesis by simp
qed

text \<open>
  Claim C3. A failure that is not a failure of the ETF-layout path is not caught: when
  the navigation raises, the scraper raises the same exception; when the ETF path has
  raised and the fund path raises too, the scraper raises the fund path's exception.
  And when the scraper raises for a ticker of the batch, the loop ends there, in the
  state that call left: the tickers after it are not processed.
\<close>

theorem unrecovered_failure_propagates:
  "(navigate lower_u d ticker_name s = (Inl e, s') \<longrightarrow>
      scraper lower_u d ticker_name s = (Inl e, s')) \<and>
   (navigate lower_u d ticker_name s = (Inr (), s1) \<and> etf_block d s1 = (Inl e1, s2) \<and>
    fund_block d s2 = (Inl e, s') \<longrightarrow>
      scraper lower_u d ticker_name s = (Inl e, s')) \<and>
   (batch lower_u d before s0 = (Inr (), s) \<and> scraper lower_u d ticker_name s = (Inl e, s') \<longrightarrow>
      batch lower_u d (before @ ticker_name # after) s0 = (Inl e, s'))"
proof (intro conjI impI)
  assume "navigate lower_u d ticker_name s = (Inl e, s')"
  then show "scraper lower_u d ticker_name s = (Inl e, s')" by (rule scraper_navigate_Inl)
next
  assume "navigate lower_u d ticker_name s = (Inr (), s1) \<and> etf_block d s1 = (Inl e1, s2) \<and>
    fund_block d s2 = (Inl e, s')"
  then show "scraper lower_u d ticker_name s = (Inl e, s')"
    by (simp add: scraper_etf_Inl)
next
  assume "batch lower_u d before s0 = (Inr (), s) \<and> scraper lower_u d ticker_name s = (Inl e, s')"
  then show "batch lower_u d (before @ ticker_name # after) s0 = (Inl e, s')"
    by (simp add: batch_append)
qed

lemma run_zzz:
  "fst (navigate id stub ''zzz'' demo_state) = Inl (DriverError ''no such element'')"
  by (simp add: run_defs xpath_neq lower_tickers)

lemma run_BND_steps:
  "fst (navigate id stub ''BND'' demo_state) = Inr ()"
  "fst (etf_block stub (snd (navigate id stub ''BND'' demo_state)))
     = Inl (DriverError ''no such element'')"
  "fst (fund_block stub (snd (etf_block stub (snd (navigate id stub ''BND'' demo_state)))))
     = Inl (DriverError ''no such element'')"
  by (simp_all add: run_defs xpath_neq lower_tickers)

lemma run_batch_SPY:
  "fst (batch id stub [''SPY''] demo_state) = Inr ()"
  "fst (scraper id stub ''BND'' (snd (batch id stub [''SPY''] demo_state)))
     = Inl (DriverError ''no such element'')"
  "map fst (filter (\<lambda>co. is_get (fst co))
     (calls (snd (scraper id stub ''BND'' (snd (batch id stub [''SPY''] demo_state))))))
     = [Get (search_url @ ''spy''), Get (search_url @ ''bnd'')]"
  by (simp_all add: run_defs xpath_neq lower_tickers)

theorem unrecovered_failure_propagates_witness:
  "fst (navigate id stub ''zzz'' demo_state) = Inl (DriverError ''no such element'') \<and>
   fst (scraper id stub ''zzz'' demo_state) = Inl (DriverError ''no such element'') \<and>
   fst (navigate id stub ''BND'' demo_state) = Inr () \<and>
   fst (etf_block stub (snd (navigate id stub ''BND'' demo_state)))
     = Inl (DriverError ''no such element'') \<and>
   fst (fund_block stub (snd (etf_block stub (snd (navigate id stub ''BND'' demo_state)))))
     = Inl (DriverError ''no such element'') \<and>
   fst (scraper id stub ''BND'' demo_state) = Inl (DriverError ''no such element'') \<and>
   fst (batch id stub [''SPY''] demo_state) = Inr () \<and>
   fst (scraper id stub ''BND'' (snd (batch id stub [''SPY''] demo_state)))
     = Inl (DriverError ''no such element'') \<and>
   fst (batch id stub [''SPY'', ''BND'', ''VFIAX''] demo_state)
     = Inl (DriverError ''no such element'') \<and>
   map fst (filter (\<lambda>co. is_get (fst co))
     (calls (snd (batch id stub [''SPY'', ''BND'', ''VFIAX''] demo_state))))
     = [Get (search_url @ ''spy''), Get (search_url @ ''bnd'')]"
proof -
  have z: "navigate id stub ''zzz'' demo_state
      = (Inl (DriverError ''no such element''), snd (navigate id stub ''zzz'' demo_state))"
    by (rule pair_fstI) (rule run_zzz)
  have n: "navigate id stub ''BND'' demo_state
      = (Inr (), snd (navigate id stub ''BND'' demo_state))"
    by (rule pair_fstI) (rule run_BND_steps)
  have e: "etf_block stub (snd (navigate id stub ''BND'' demo_state))
      = (Inl (DriverError ''no such element''),
         snd (etf_block stub (snd (navigate id stub ''BND'' demo_state))))"
    by (rule pair_fstI) (rule run_BND_steps)
  have f: "fund_block stub (snd (etf_block stub (snd (navigate id stub ''BND'' demo_state))))
      = (Inl (DriverError ''no such element''),
         snd (fund_block stub (snd (etf_block stub (snd (navigate id stub ''BND'' demo_state))))))"
    by (rule pair_fstI) (rule run_BND_steps)
  have b: "batch id stub [''SPY''] demo_state
      = (Inr (), snd (batch id stub [''SPY''] demo_state))"
    by (rule pair_fstI) (rule run_batch_SPY)
  have s: "scraper id stub ''BND'' (snd (batch id stub [''SPY''] demo_state))
      = (Inl (DriverError ''no such element''),
         snd (scraper id stub ''BND'' (snd (batch id stub [''SPY''] demo_state))))"
    by (rule pair_fstI) (rule run_batch_SPY)
  note t = unrecovered_failure_propagates [where lower_u = id and d = stub]
  from t [THEN conjunct1, rule_format, OF z]
    t [THEN conjunct2, THEN conjunct1, rule_format, OF conjI, OF n conjI, OF e f]
    t [THEN conjunct2, THEN conjunct2, rule_format, OF conjI, OF b s, where after = "[''VFIAX'']"]
    run_zzz run_BND_steps run_batch_SPY
  show ?thesis by simp
qed

section \<open>The locators of the two layouts\<close>

text \<open>
  Claim C7. A path that runs to its end has located the monthly toggle by the
  identifier \<open>monthly\<close>, in the ETF layout and in the fund layout alike, and has read the
  monthly return from column 2 and the year-to-date return from column 5 of row 1 of
  the trailing-returns table, the same two positions in both layouts; the two texts it
  returns are the texts of those two cells.
\<close>

theorem layout_paths_same_cells:
  "(etf_block d s = (Inr (one_mo, ytd), s') \<longrightarrow>
      (\<exists>p m c1 c2. calls s' = calls s @
         path_calls etf_performance_xpath ''//*[@id=\"monthly\"]''
           (etf_root @ trailing_returns_table @ ''/tbody/tr[1]/td[2]'')
           (etf_root @ trailing_returns_table @ ''/tbody/tr[1]/td[5]'')
           p m c1 c2 one_mo ytd)) \<and>
   (fund_block d s = (Inr (one_mo, ytd), s') \<longrightarrow>
      (\<exists>p m c1 c2. calls s' = calls s @
         path_calls fund_performance_xpath ''//*[@id=\"monthly\"]''
           (fund_root @ trailing_returns_table @ ''/tbody/tr[1]/td[2]'')
           (fund_root @ trailing_returns_table @ ''/tbody/tr[1]/td[5]'')
           p m c1 c2 one_mo ytd))"
  using etf_block_Inr [of d s one_mo ytd s'] fund_block_Inr [of d s one_mo ytd s']
  unfolding locators by blast

lemma run_blocks:
  "fst (etf_block stub (demo_state\<lparr>session := search_url @ ''spy''\<rparr>)) = Inr (''1.23'', ''10.45'')"
  "fst (fund_block stub (demo_state\<lparr>session := search_url @ ''vfiax''\<rparr>)) = Inr (''0.98'', ''9.11'')"
  by (simp_all add: run_defs xpath_neq)

theorem layout_paths_same_cells_witness:
  "fst (etf_block stub (demo_state\<lparr>session := search_url @ ''spy''\<rparr>)) = Inr (''1.23'', ''10.45'') \<and>
   (\<exists>p m c1 c2. calls (snd (etf_block stub (demo_state\<lparr>session := search_url @ ''spy''\<rparr>))) =
      path_calls etf_performance_xpath ''//*[@id=\"monthly\"]''
        (etf_root @ trailing_returns_table @ ''/tbody/tr[1]/td[2]'')
        (etf_root @ trailing_returns_table @ ''/tbody/tr[1]/td[5]'')
        p m c1 c2 ''1.23'' ''10.45'') \<and>
   fst (fund_block stub (demo_state\<lparr>session := search_url @ ''vfiax''\<rparr>)) = Inr (''0.98'', ''9.11'') \<and>
   (\<exists>p m c1 c2. calls (snd (fund_block stub (demo_state\<lparr>session := search_url @ ''vfiax''\<rparr>))) =
      path_calls fund_performance_xpath ''//*[@id=\"monthly\"]''
        (fund_root @ trailing_returns_table @ ''/tbody/tr[1]/td[2]'')
        (fund_root @ trailing_returns_table @ ''/tbody/tr[1]/td[5]'')
        p m c1 c2 ''0.98'' ''9.11'')"
proof -
  have e: "etf_block stub (demo_state\<lparr>session := search_url @ ''spy''\<rparr>)
      = (Inr (''1.23'', ''10.45''), snd (etf_block stub (demo_state\<lparr>session := search_url @ ''spy''\<rparr>)))"
    by (rule pair_fstI) (rule run_blocks)
  have f: "fund_block stub (demo_state\<lparr>session := search_url @ ''vfiax''\<rparr>)
      = (Inr (''0.98'', ''9.11''), snd (fund_block stub (demo_state\<lparr>session := search_url @ ''vfiax''\<rparr>)))"
    by (rule pair_fstI) (rule run_blocks)
  have c: "calls (demo_state\<lparr>session := u\<rparr>) = []" for u
    by (simp add: demo_state_def)
  from layout_paths_same_cells [THEN conjunct1, rule_format, OF e]
    layout_paths_same_cells [THEN conjunct2, rule_format, OF f] run_blocks c
  show ?thesis by simp
qed

section \<open>Letter case\<close>

lemma ascii_tolower_toupper: "ascii_tolower (ascii_toupper c) = ascii_tolower c"
  by (auto simp: ascii_tolower_def ascii_toupper_def Let_def)

lemma ascii_tolower_swapcase: "ascii_tolower (ascii_swapcase c) = ascii_tolower c"
  by (auto simp: ascii_tolower_def ascii_swapcase_def Let_def)

lemma ascii_toupper_ascii: "(of_char c :: nat) < 128 \<Longrightarrow> (of_char (ascii_toupper c) :: nat) < 128"
  by (auto simp: ascii_toupper_def Let_def)

lemma ascii_swapcase_ascii: "(of_char c :: nat) < 128 \<Longrightarrow> (of_char (ascii_swapcase c) :: nat) < 128"
  by (auto simp: ascii_swapcase_def Let_def)

lemma is_ascii_toupper: "is_ascii s \<Longrightarrow> is_ascii (map ascii_toupper s)"
  by (induction s) (auto simp: is_ascii_def ascii_toupper_ascii)

lemma is_ascii_recase: "is_ascii s \<Longrightarrow> is_ascii (recase flags s)"
  by (induction flags s rule: recase.induct) (auto simp: is_ascii_def ascii_swapcase_ascii)

lemma tolower_recase: "map ascii_tolower (recase flags s) = map ascii_tolower s"
  by (induction flags s rule: recase.induct) (auto simp: ascii_tolower_swapcase)

lemma py_lower_upper: "is_ascii s \<Longrightarrow> py_lower L (py_upper U s) = py_lower L s"
  by (simp add: py_lower_def py_upper_def is_ascii_toupper ascii_tolower_toupper)

lemma py_lower_recase: "is_ascii s \<Longrightarrow> py_lower L (recase flags s) = py_lower L s"
  by (simp add: py_lower_def is_ascii_recase tolower_recase)

text \<open>
  Claim C8, as amended. For a ticker of ASCII characters the search URL does not depend
  on the letter case: the upper-cased ticker and every string obtained from the ticker
  by flipping the case of some of its letters give the same URL as the ticker.
\<close>

theorem scraper_url_case_insensitive:
  "is_ascii ticker_name \<Longrightarrow>
     scraper_url lower_u (py_upper upper_u ticker_name) = scraper_url lower_u ticker_name \<and>
     scraper_url lower_u (recase flags ticker_name) = scraper_url lower_u ticker_name"
  by (simp add: scraper_url_def py_lower_upper py_lower_recase)

lemma case_Spy:
  "is_ascii ''Spy''" "py_upper id ''Spy'' = ''SPY''" "recase [False, True, True] ''Spy'' = ''SPY''"
  "py_lower id ''Spy'' = ''spy''"
  by code_simp+

theorem scraper_url_case_insensitive_witness:
  "is_ascii ''Spy'' \<and> py_upper id ''Spy'' = ''SPY'' \<and>
   recase [False, True, True] ''Spy'' = ''SPY'' \<and>
   scraper_url id ''SPY'' = scraper_url id ''Spy'' \<and>
   scraper_url id ''Spy'' = ''https://www.morningstar.com/search/us-securities?query=spy''"
  using scraper_url_case_insensitive [where ticker_name = "''Spy''" and lower_u = id
      and upper_u = id and flags = "[False, True, True]", OF case_Spy(1)] case_Spy
  by (simp add: scraper_url_def search_url_def)

text \<open>
  Claim C8 as stated, for every string, fails: the upper case of the sharp s is \<open>SS\<close>,
  whose lower case is \<open>ss\<close>, so the sharp s and its upper-cased variant are looked up
  under different URLs.
\<close>

theorem scraper_url_case_insensitive_counterexample:
  "\<not> is_ascii sharp_s \<and>
   py_upper sharp_s_upper sharp_s = ''SS'' \<and>
   scraper_url sharp_s_lower (py_upper sharp_s_upper sharp_s) = search_url @ ''ss'' \<and>
   scraper_url sharp_s_lower sharp_s = search_url @ sharp_s \<and>
   scraper_url sharp_s_lower (py_upper sharp_s_upper sharp_s) \<noteq> scraper_url sharp_s_lower sharp_s"
proof -
  have 1: "\<not> is_ascii sharp_s" by code_simp
  have 2: "py_upper sharp_s_upper sharp_s = ''SS''" by code_simp
  have 3: "py_lower sharp_s_lower ''SS'' = ''ss''" by code_simp
  have 4: "py_lower sharp_s_lower sharp_s = sharp_s" by code_simp
  have 5: "''ss'' \<noteq> sharp_s" by code_simp
  from 1 2 3 4 5 show ?thesis by (simp add: scraper_url_def)
qed

section \<open>The batch loop\<close>

lemma batch_vals:
  "batch L d ts s = (r, s') \<Longrightarrow>
     files s' = files s \<and>
     (\<exists>ms ys. one_mo_vals s' = one_mo_vals s @ ms \<and> ytd_vals s' = ytd_vals s @ ys \<and>
        (r = Inr () \<longrightarrow> length ms = length ts \<and> length ys = length ts))"
proof (induction ts arbitrary: s)
  case Nil
  then show ?case by auto
next
  case (Cons t ts)
  obtain r1 s1 where run: "scraper L d t s = (r1, s1)" by (cases "scraper L d t s")
  note v = scraper_vals [OF run] and f = scraper_run [OF run, THEN conjunct1]
  show ?case
  proof (cases r1)
    case (Inl e)
    with run Cons.prems v f show ?thesis by auto
  next
    case (Inr u)
    with run Cons.prems have "batch L d ts s1 = (r, s')" by simp
    from Cons.IH [OF this] v f Inr show ?thesis by auto
  qed
qed

lemma filter_no_get:
  "list_all (\<lambda>co. \<not> is_get (fst co)) l \<Longrightarrow> filter (\<lambda>co. is_get (fst co)) l = []"
  by (induction l) auto

lemma batch_gets:
  "batch L d ts s = (r, s') \<Longrightarrow>
     \<exists>l k. calls s' = calls s @ l \<and> k \<le> length ts \<and> (r = Inr () \<longrightarrow> k = length ts) \<and>
       map fst (filter (\<lambda>co. is_get (fst co)) l)
         = map (\<lambda>t. Get (search_url @ py_lower L t)) (take k ts)"
proof (induction ts arbitrary: s)
  case Nil
  then show ?case by auto
next
  case (Cons t ts)
  obtain r1 s1 where run: "scraper L d t s = (r1, s1)" by (cases "scraper L d t s")
  from scraper_run [OF run] obtain out l1 where
    c1: "calls s1 = calls s @ (Get (search_url @ py_lower L t), out) # l1"
    and n1: "list_all (\<lambda>co. \<not> is_get (fst co)) l1" by auto
  show ?case
  proof (cases r1)
    case (Inl e)
    with run Cons.prems have "s' = s1" "r = Inl e" by auto
    with c1 n1 show ?thesis
      by (intro exI [of _ "(Get (search_url @ py_lower L t), out) # l1"] exI [of _ 1])
        (simp add: filter_no_get)
  next
    case (Inr u)
    with run Cons.prems have "batch L d ts s1 = (r, s')" by simp
    from Cons.IH [OF this] obtain l k where
      c2: "calls s' = calls s1 @ l" and k: "k \<le> length ts" "r = Inr () \<longrightarrow> k = length ts"
      and g: "map fst (filter (\<lambda>co. is_get (fst co)) l)
         = map (\<lambda>t. Get (search_url @ py_lower L t)) (take k ts)" by auto
    from c1 c2 n1 k g show ?thesis
      by (intro exI [of _ "(Get (search_url @ py_lower L t), out) # l1 @ l"] exI [of _ "Suc k"])
        (simp add: filter_no_get)
  qed
qed

lemma batch_nth:
  assumes run: "batch L d ts s = (Inr (), s')" and i: "i < length ts"
  shows "\<exists>si one_mo ytd s1. batch L d (take i ts) s = (Inr (), si) \<and>
     scrape L d (ts ! i) si = (Inr (one_mo, ytd), s1) \<and>
     one_mo_vals s' ! (length (one_mo_vals s) + i) = one_mo \<and>
     ytd_vals s' ! (length (ytd_vals s) + i) = ytd"
proof -
  have ts: "ts = take i ts @ ts ! i # drop (Suc i) ts"
    using i by (simp add: id_take_nth_drop)
  obtain r1 si where b1: "batch L d (take i ts) s = (r1, si)" by (cases "batch L d (take i ts) s")
  obtain r2 sj where sc: "scraper L d (ts ! i) si = (r2, sj)" by (cases "scraper L d (ts ! i) si")
  from run have run': "batch L d (take i ts @ ts ! i # drop (Suc i) ts) s = (Inr (), s')"
    using ts by simp
  from run' b1 have r1: "r1 = Inr ()"
    by (cases r1) (auto simp: batch_append)
  from run' b1 r1 sc have r2: "\<exists>u. r2 = Inr u"
    by (cases r2) (auto simp: batch_append)
  from run' b1 r1 sc r2 have b3: "batch L d (drop (Suc i) ts) sj = (Inr (), s')"
    by (auto simp: batch_append)
  from batch_vals [OF b1] r1 i obtain ms ys where
    v1: "one_mo_vals si = one_mo_vals s @ ms" "ytd_vals si = ytd_vals s @ ys"
      "length ms = i" "length ys = i" by auto
  from r2 sc scraper_Inr obtain one_mo ytd s1 where
    s1: "scrape L d (ts ! i) si = (Inr (one_mo, ytd), s1)"
    and sj: "sj = s1\<lparr>one_mo_vals := one_mo_vals si @ [one_mo], ytd_vals := ytd_vals si @ [ytd]\<rparr>"
    by blast
  from batch_vals [OF b3] obtain ms' ys' where
    v3: "one_mo_vals s' = one_mo_vals sj @ ms'" "ytd_vals s' = ytd_vals sj @ ys'" by auto
  have "one_mo_vals s' ! (length (one_mo_vals s) + i) = one_mo"
    using v1 v3 sj by (simp add: nth_append)
  moreover have "ytd_vals s' ! (length (ytd_vals s) + i) = ytd"
    using v1 v3 sj by (simp add: nth_append)
  ultimately show ?thesis using b1 r1 s1 by blast
qed

text \<open>
  Claim C6. The loop takes the tickers in order, one call of the scraper each. However
  the loop ends, the \<open>get\<close> calls it has made are the search URLs of an initial segment
  of the ticker list, in order, one per ticker. When the loop runs to its end they are
  the URLs of all tickers, each list has grown by one element per ticker and keeps what
  it held before, and for every index \<open>i\<close> the \<open>i\<close>-th new elements of the two lists are the
  pair of texts that the scraper extracted for the \<open>i\<close>-th ticker, called in the state
  that the first \<open>i\<close> tickers left.
\<close>

theorem batch_in_order:
  "(\<exists>l k. calls (snd (batch lower_u d tickers s)) = calls s @ l \<and> k \<le> length tickers \<and>
      map fst (filter (\<lambda>co. is_get (fst co)) l)
        = map (\<lambda>t. Get (search_url @ py_lower lower_u t)) (take k tickers)) \<and>
   (batch lower_u d tickers s = (Inr (), s') \<longrightarrow>
      (\<exists>l. calls s' = calls s @ l \<and>
         map fst (filter (\<lambda>co. is_get (fst co)) l)
           = map (\<lambda>t. Get (search_url @ py_lower lower_u t)) tickers) \<and>
      length (one_mo_vals s') = length (one_mo_vals s) + length tickers \<and>
      length (ytd_vals s') = length (ytd_vals s) + length tickers \<and>
      take (length (one_mo_vals s)) (one_mo_vals s') = one_mo_vals s \<and>
      take (length (ytd_vals s)) (ytd_vals s') = ytd_vals s \<and>
      (\<forall>i<length tickers. \<exists>si one_mo ytd s1.
         batch lower_u d (take i tickers) s = (Inr (), si) \<and>
         scrape lower_u d (tickers ! i) si = (Inr (one_mo, ytd), s1) \<and>
         one_mo_vals s' ! (length (one_mo_vals s) + i) = one_mo \<and>
         ytd_vals s' ! (length (ytd_vals s) + i) = ytd))"
proof (intro conjI impI)
  obtain r s1 where run: "batch lower_u d tickers s = (r, s1)"
    by (cases "batch lower_u d tickers s")
  from batch_gets [OF run] run
  show "\<exists>l k. calls (snd (batch lower_u d tickers s)) = calls s @ l \<and> k \<le> length tickers \<and>
      map fst (filter (\<lambda>co. is_get (fst co)) l)
        = map (\<lambda>t. Get (search_url @ py_lower lower_u t)) (take k tickers)"
    by auto
next
  assume run: "batch lower_u d tickers s = (Inr (), s')"
  from batch_gets [OF run]
  show "\<exists>l. calls s' = calls s @ l \<and>
         map fst (filter (\<lambda>co. is_get (fst co)) l)
           = map (\<lambda>t. Get (search_url @ py_lower lower_u t)) tickers"
    by auto
  from batch_vals [OF run]
  show "length (one_mo_vals s') = length (one_mo_vals s) + length tickers"
    and "length (ytd_vals s') = length (ytd_vals s) + length tickers"
    and "take (length (one_mo_vals s)) (one_mo_vals s') = one_mo_vals s"
    and "take (length (ytd_vals s)) (ytd_vals s') = ytd_vals s"
    by auto
  from batch_nth [OF run]
  show "\<forall>i<length tickers. \<exists>si one_mo ytd s1.
         batch lower_u d (take i tickers) s = (Inr (), si) \<and>
         scrape lower_u d (tickers ! i) si = (Inr (one_mo, ytd), s1) \<and>
         one_mo_vals s' ! (length (one_mo_vals s) + i) = one_mo \<and>
         ytd_vals s' ! (length (ytd_vals s) + i) = ytd"
    by blast
qed

lemma run_batch_demo:
  "fst (batch id stub [''SPY'', ''VFIAX''] demo_state) = Inr ()"
  "one_mo_vals (snd (batch id stub [''SPY'', ''VFIAX''] demo_state)) = [''1.23'', ''0.98'']"
  "ytd_vals (snd (batch id stub [''SPY'', ''VFIAX''] demo_state)) = [''10.45'', ''9.11'']"
  by (simp_all add: run_defs xpath_neq lower_tickers)

theorem batch_in_order_witness:
  "fst (batch id stub [''SPY'', ''VFIAX''] demo_state) = Inr () \<and>
   one_mo_vals (snd (batch id stub [''SPY'', ''VFIAX''] demo_state)) = [''1.23'', ''0.98''] \<and>
   ytd_vals (snd (batch id stub [''SPY'', ''VFIAX''] demo_state)) = [''10.45'', ''9.11''] \<and>
   (\<exists>l. calls (snd (batch id stub [''SPY'', ''VFIAX''] demo_state)) = l \<and>
      map fst (filter (\<lambda>co. is_get (fst co)) l)
        = [Get (search_url @ ''spy''), Get (search_url @ ''vfiax'')]) \<and>
   (\<exists>si s1. batch id stub [''SPY''] demo_state = (Inr (), si) \<and>
      scrape id stub ''VFIAX'' si = (Inr (''0.98'', ''9.11''), s1))"
proof -
  have b: "batch id stub [''SPY'', ''VFIAX''] demo_state
      = (Inr (), snd (batch id stub [''SPY'', ''VFIAX''] demo_state))"
    by (rule pair_fstI) (rule run_batch_demo)
  have c: "calls demo_state = []" "one_mo_vals demo_state = []" "ytd_vals demo_state = []"
    by (simp_all add: demo_state_def)
  note t = batch_in_order [where lower_u = id and d = stub, THEN conjunct2, rule_format, OF b]
  from t [THEN conjunct2, THEN conjunct2, THEN conjunct2, THEN conjunct2, THEN conjunct2,
      rule_format, of 1]
  have "\<exists>si s1. batch id stub [''SPY''] demo_state = (Inr (), si) \<and>
      scrape id stub ''VFIAX'' si = (Inr (''0.98'', ''9.11''), s1)"
    by (simp add: c run_batch_demo del: batch.simps)
  with t [THEN conjunct1] run_batch_demo show ?thesis
    by (simp add: c lower_tickers del: batch.simps)
qed

section \<open>The script\<close>

lemma script_unfold:
  assumes "files s ''demo_stock_data.csv'' = Some f" and "header f \<noteq> []"
    and "df_tickers (csv_table P f) = (Inr tickers :: 'x exn + 'v cell list)"
  shows "script P L (d :: ('s, 'e, 'x) webdriver) s =
     (case batch L d (map (cell_str P) tickers) (s\<lparr>one_mo_vals := [], ytd_vals := []\<rparr>) of
        (Inl e, s') \<Rightarrow> (Inl e, s')
      | (Inr u, s') \<Rightarrow>
          (case df_insert 4 ''Monthly'' (map Str (one_mo_vals s')) (csv_table P f) of
             Inl e \<Rightarrow> (Inl e, s')
           | Inr df1 \<Rightarrow>
               (case df_insert 5 ''YTD'' (map Str (ytd_vals s')) df1 of
                  Inl e \<Rightarrow> (Inl e, s')
                | Inr df2 \<Rightarrow> to_csv P df2 ''updated_stonksdata.csv'' s')))"
proof -
  let ?s0 = "s\<lparr>one_mo_vals := [], ytd_vals := []\<rparr>"
  have 1: "read_csv P ''demo_stock_data.csv'' s = (Inr (csv_table P f), s)"
    by (simp add: read_csv_def assms)
  have 2: "init_vals s = (Inr (), ?s0)"
    by (simp add: init_vals_def)
  have 3: "lift (df_tickers (csv_table P f)) ?s0 = (Inr tickers, ?s0)"
    by (simp add: lift_def assms)
  have "script P L d s =
     pbind (batch L d (map (cell_str P) tickers)) (\<lambda>_.
     pbind (\<lambda>s. lift (df_insert 4 ''Monthly'' (map Str (one_mo_vals s)) (csv_table P f)) s) (\<lambda>df1.
     pbind (\<lambda>s. lift (df_insert 5 ''YTD'' (map Str (ytd_vals s)) df1) s) (\<lambda>df2.
     to_csv P df2 ''updated_stonksdata.csv''))) ?s0"
    unfolding script_def
    by (simp only: pbind_Inr [where m = "read_csv P ''demo_stock_data.csv''", OF 1]
        pbind_Inr [where m = init_vals, OF 2]
        pbind_Inr [where m = "lift (df_tickers (csv_table P f))", OF 3])
  then show ?thesis
    by (simp add: pbind_def lift_def split: prod.splits sum.splits)
qed

text \<open>
  Claim C4. When the scraper raises for a ticker of the batch, the run ends with that
  exception and the files are what they were before the run: no output file is
  produced, and what was scraped for the earlier tickers is only in the two lists.
\<close>

theorem script_failure_no_output:
  assumes "files s ''demo_stock_data.csv'' = Some f" and "header f \<noteq> []"
    and "df_tickers (csv_table P f) = (Inr tickers :: 'x exn + 'v cell list)"
    and "map (cell_str P) tickers = before @ ticker_name # after"
    and "batch lower_u d before (s\<lparr>one_mo_vals := [], ytd_vals := []\<rparr>) = (Inr (), s1)"
    and "scraper lower_u d ticker_name s1 = (Inl e, s')"
  shows "script P lower_u (d :: ('s, 'e, 'x) webdriver) s = (Inl e, s') \<and> files s' = files s"
proof -
  have b: "batch lower_u d (map (cell_str P) tickers) (s\<lparr>one_mo_vals := [], ytd_vals := []\<rparr>)
      = (Inl e, s')"
    using assms(4-6) by (simp add: batch_append)
  from batch_vals [OF b] have "files s' = files s" by simp
  moreover have "script P lower_u d s = (Inl e, s')"
    using script_unfold [OF assms(1-3), of lower_u d] b by simp
  ultimately show ?thesis by simp
qed

lemmas table_defs = df_tickers_def csv_table_def csv_column_def field_def text_pandas_def
  upt_rec

lemma run_script_bnd:
  "files demo_state_bnd ''demo_stock_data.csv'' = Some demo_file_bnd"
  "header demo_file_bnd \<noteq> []"
  "df_tickers (csv_table text_pandas demo_file_bnd)
     = Inr [Inferred ''SPY'', Inferred ''BND'', Inferred ''VFIAX'']"
  "map (cell_str text_pandas) [Inferred ''SPY'', Inferred ''BND'', Inferred ''VFIAX'']
     = [''SPY''] @ ''BND'' # [''VFIAX'']"
  "fst (batch id stub [''SPY''] (demo_state_bnd\<lparr>one_mo_vals := [], ytd_vals := []\<rparr>)) = Inr ()"
  "fst (scraper id stub ''BND''
     (snd (batch id stub [''SPY''] (demo_state_bnd\<lparr>one_mo_vals := [], ytd_vals := []\<rparr>))))
     = Inl (DriverError ''no such element'')"
  "one_mo_vals (snd (scraper id stub ''BND''
     (snd (batch id stub [''SPY''] (demo_state_bnd\<lparr>one_mo_vals := [], ytd_vals := []\<rparr>)))))
     = [''1.23'']"
  by (simp_all add: run_defs xpath_neq lower_tickers demo_state_bnd_def demo_file_bnd_def
      table_defs)

theorem script_failure_no_output_witness:
  "fst (script text_pandas id stub demo_state_bnd) = Inl (DriverError ''no such element'') \<and>
   files (snd (script text_pandas id stub demo_state_bnd)) = files demo_state_bnd \<and>
   files (snd (script text_pandas id stub demo_state_bnd)) ''updated_stonksdata.csv'' = None \<and>
   one_mo_vals (snd (script text_pandas id stub demo_state_bnd)) = [''1.23'']"
proof -
  have b: "batch id stub [''SPY''] (demo_state_bnd\<lparr>one_mo_vals := [], ytd_vals := []\<rparr>)
      = (Inr (), snd (batch id stub [''SPY''] (demo_state_bnd\<lparr>one_mo_vals := [], ytd_vals := []\<rparr>)))"
    by (rule pair_fstI) (rule run_script_bnd)
  have sc: "scraper id stub ''BND''
       (snd (batch id stub [''SPY''] (demo_state_bnd\<lparr>one_mo_vals := [], ytd_vals := []\<rparr>)))
      = (Inl (DriverError ''no such element''),
         snd (scraper id stub ''BND''
           (snd (batch id stub [''SPY''] (demo_state_bnd\<lparr>one_mo_vals := [], ytd_vals := []\<rparr>)))))"
    by (rule pair_fstI) (rule run_script_bnd)
  have n: "files demo_state_bnd ''updated_stonksdata.csv'' = None"
    by (simp add: demo_state_bnd_def)
  from script_failure_no_output [OF run_script_bnd(1) run_script_bnd(2) run_script_bnd(3)
      run_script_bnd(4) b sc] n run_script_bnd(7)
  show ?thesis by simp
qed

section \<open>The written table\<close>

lemma table_sizes:
  "length (df_index (csv_table P f)) = length (rows f)"
  "df_columns (csv_table P f) = tl (header f)"
  "length (df_data (csv_table P f)) = length (tl (header f))"
  by (simp_all add: csv_table_def)

lemma tickers_column:
  assumes "df_tickers (csv_table P f) = Inr tickers"
  shows "\<exists>j. Suc j < length (header f) \<and> header f ! Suc j = ''Ticker'' \<and>
     tickers = map (\<lambda>i. Inferred (infer P (csv_column f (Suc j)) i)) [0..<length (rows f)]"
proof -
  from assms have "map_of (zip (df_columns (csv_table P f)) (df_data (csv_table P f))) ''Ticker''
      = Some tickers"
    by (simp add: df_tickers_def split: option.splits)
  then have "(''Ticker'', tickers) \<in> set (zip (df_columns (csv_table P f)) (df_data (csv_table P f)))"
    by (rule map_of_SomeD)
  then obtain j where j: "j < length (tl (header f))" "tl (header f) ! j = ''Ticker''"
    "df_data (csv_table P f) ! j = tickers"
    by (auto simp: in_set_zip table_sizes)
  from j(1) have "Suc j < length (header f)" by simp
  moreover from j(1,2) have "header f ! Suc j = ''Ticker''" by (simp add: nth_tl)
  moreover from j(1,3)
  have "tickers = map (\<lambda>i. Inferred (infer P (csv_column f (Suc j)) i)) [0..<length (rows f)]"
    by (simp add: csv_table_def)
  ultimately show ?thesis by blast
qed

lemma tickers_length:
  assumes "df_tickers (csv_table P f) = Inr tickers"
  shows "length tickers = length (rows f)"
  using tickers_column [OF assms] by auto

lemma table_row:
  assumes "i < length (rows f)"
  shows "map (\<lambda>col. cell_at P col i) (df_data (csv_table P f)) = loaded_row P f i"
  using assms by (simp add: csv_table_def loaded_row_def cell_at_def)

lemma written_rows:
  assumes ms: "length ms = length (rows f)" and ys: "length ys = length (rows f)"
  shows "map (\<lambda>i. map (\<lambda>col. cell_at P col i)
           (take 4 (df_data (csv_table P f)) @ [map Str ms, map Str ys]
              @ drop 4 (df_data (csv_table P f))))
         [0..<length (rows f)]
       = rows (merged P f ms ys)"
proof (rule nth_equalityI)
  show "length (map (\<lambda>i. map (\<lambda>col. cell_at P col i)
           (take 4 (df_data (csv_table P f)) @ [map Str ms, map Str ys]
              @ drop 4 (df_data (csv_table P f))))
         [0..<length (rows f)]) = length (rows (merged P f ms ys))"
    using ms ys by (simp add: merged_def)
next
  fix i
  assume "i < length (map (\<lambda>i. map (\<lambda>col. cell_at P col i)
           (take 4 (df_data (csv_table P f)) @ [map Str ms, map Str ys]
              @ drop 4 (df_data (csv_table P f))))
         [0..<length (rows f)])"
  then have i: "i < length (rows f)" by simp
  let ?D = "df_data (csv_table P f)"
  from table_row [OF i, of P]
  have td: "map (\<lambda>col. cell_at P col i) (take 4 ?D) = take 4 (loaded_row P f i)"
    "map (\<lambda>col. cell_at P col i) (drop 4 ?D) = drop 4 (loaded_row P f i)"
    by (simp_all add: take_map [symmetric] drop_map [symmetric])
  have "map (\<lambda>i. map (\<lambda>col. cell_at P col i) (take 4 ?D @ [map Str ms, map Str ys] @ drop 4 ?D))
         [0..<length (rows f)] ! i
      = map (\<lambda>col. cell_at P col i) (take 4 ?D @ [map Str ms, map Str ys] @ drop 4 ?D)"
    using i by simp
  also have "\<dots> = take 4 (loaded_row P f i) @ [ms ! i, ys ! i] @ drop 4 (loaded_row P f i)"
    using td i ms ys by (simp add: cell_at_def)
  also have "\<dots> = rows (merged P f ms ys) ! i"
    using i ms ys by (simp add: merged_def)
  finally show "map (\<lambda>i. map (\<lambda>col. cell_at P col i)
           (take 4 ?D @ [map Str ms, map Str ys] @ drop 4 ?D))
         [0..<length (rows f)] ! i = rows (merged P f ms ys) ! i" .
qed

lemma script_success:
  fixes d :: "('s, 'e, 'x) webdriver"
  assumes f: "files s ''demo_stock_data.csv'' = Some f" and wf: "well_formed f"
    and t: "df_tickers (csv_table P f) = (Inr tickers :: 'x exn + 'v cell list)"
    and c: "4 \<le> length (tl (header f))" "''Monthly'' \<notin> set (tl (header f))"
      "''YTD'' \<notin> set (tl (header f))"
    and b: "batch L d (map (cell_str P) tickers) (s\<lparr>one_mo_vals := [], ytd_vals := []\<rparr>)
      = (Inr (), s1)"
  shows "script P L d s =
     (Inr (), s1\<lparr>files := (files s)(''updated_stonksdata.csv'' \<mapsto>
        merged P f (one_mo_vals s1) (ytd_vals s1))\<rparr>)"
proof -
  from wf have h: "header f \<noteq> []" by (simp add: well_formed_def)
  from batch_vals [OF b] tickers_length [OF t]
  have fs: "files s1 = files s" and ms: "length (one_mo_vals s1) = length (rows f)"
    and ys: "length (ytd_vals s1) = length (rows f)" by auto
  let ?D = "df_data (csv_table P f)"
  have i1: "df_insert 4 ''Monthly'' (map Str (one_mo_vals s1)) (csv_table P f) =
      (Inr \<lparr>df_index = df_index (csv_table P f),
           df_columns = take 4 (tl (header f)) @ [''Monthly''] @ drop 4 (tl (header f)),
           df_data = take 4 ?D @ [map Str (one_mo_vals s1)] @ drop 4 ?D\<rparr>
        :: 'x exn + 'v dataframe)"
    using c ms by (simp add: df_insert_def csv_table_def)
  have i2: "df_insert 5 ''YTD'' (map Str (ytd_vals s1))
       \<lparr>df_index = df_index (csv_table P f),
        df_columns = take 4 (tl (header f)) @ [''Monthly''] @ drop 4 (tl (header f)),
        df_data = take 4 ?D @ [map Str (one_mo_vals s1)] @ drop 4 ?D\<rparr> =
      (Inr \<lparr>df_index = df_index (csv_table P f),
           df_columns = take 4 (tl (header f)) @ [''Monthly'', ''YTD''] @ drop 4 (tl (header f)),
           df_data = take 4 ?D @ [map Str (one_mo_vals s1), map Str (ytd_vals s1)] @ drop 4 ?D\<rparr>
        :: 'x exn + 'v dataframe)"
    using c ys table_sizes(3) [of P f]
    by (auto simp: df_insert_def table_sizes dest: in_set_takeD in_set_dropD)
  have "script P L d s = to_csv P
       \<lparr>df_index = df_index (csv_table P f),
        df_columns = take 4 (tl (header f)) @ [''Monthly'', ''YTD''] @ drop 4 (tl (header f)),
        df_data = take 4 ?D @ [map Str (one_mo_vals s1), map Str (ytd_vals s1)] @ drop 4 ?D\<rparr>
       ''updated_stonksdata.csv'' s1"
    using script_unfold [OF f h t, of L d] b i1 i2 by simp
  then show ?thesis
    using written_rows [OF ms ys, of P] fs by (simp add: to_csv_def merged_def table_sizes)
qed

text \<open>
  Claim C2, as amended. Let the input file be well formed with \<open>N\<close> rows, and let its
  table (the file without its first column, which is read as the row index and is not
  written back) have a \<open>Ticker\<close> column, at least four columns and no column labelled
  \<open>Monthly\<close> or \<open>YTD\<close>. Then, whatever values pandas infers from the fields and however it
  writes them, a run in which every scrape succeeds writes the table \<open>merged\<close>: \<open>N\<close> rows
  in the order of the input, the columns of the loaded table with exactly two more,
  \<open>Monthly\<close> at position 4 and \<open>YTD\<close> at position 5, which is one column more than the
  input file; the tickers are the values of the \<open>Ticker\<close> column, and row \<open>i\<close> is row \<open>i\<close> of
  the loaded table, as pandas writes it, with the two texts the scraper extracted for
  the \<open>str\<close> of the \<open>i\<close>-th ticker.
\<close>

theorem script_output:
  fixes d :: "('s, 'e, 'x) webdriver"
  assumes "files s ''demo_stock_data.csv'' = Some f" and "well_formed f"
    and "df_tickers (csv_table P f) = (Inr tickers :: 'x exn + 'v cell list)"
    and "4 \<le> length (tl (header f))" and "''Monthly'' \<notin> set (tl (header f))"
    and "''YTD'' \<notin> set (tl (header f))"
    and "batch lower_u d (map (cell_str P) tickers) (s\<lparr>one_mo_vals := [], ytd_vals := []\<rparr>)
      = (Inr (), s1)"
  shows "script P lower_u d s =
       (Inr (), s1\<lparr>files := (files s)(''updated_stonksdata.csv'' \<mapsto>
          merged P f (one_mo_vals s1) (ytd_vals s1))\<rparr>) \<and>
     length (rows (merged P f (one_mo_vals s1) (ytd_vals s1))) = length (rows f) \<and>
     length (header (merged P f (one_mo_vals s1) (ytd_vals s1))) = length (tl (header f)) + 2 \<and>
     length (header (merged P f (one_mo_vals s1) (ytd_vals s1))) = length (header f) + 1 \<and>
     (\<exists>j. Suc j < length (header f) \<and> header f ! Suc j = ''Ticker'' \<and>
        tickers = map (\<lambda>i. Inferred (infer P (csv_column f (Suc j)) i)) [0..<length (rows f)]) \<and>
     (\<forall>i<length (rows f). \<exists>si one_mo ytd s2.
        batch lower_u d (take i (map (cell_str P) tickers))
          (s\<lparr>one_mo_vals := [], ytd_vals := []\<rparr>) = (Inr (), si) \<and>
        scrape lower_u d (cell_str P (tickers ! i)) si = (Inr (one_mo, ytd), s2) \<and>
        rows (merged P f (one_mo_vals s1) (ytd_vals s1)) ! i
          = take 4 (loaded_row P f i) @ [one_mo, ytd] @ drop 4 (loaded_row P f i))"
proof -
  let ?s0 = "s\<lparr>one_mo_vals := [], ytd_vals := []\<rparr>"
  let ?ts = "map (cell_str P) tickers"
  from assms(2) have h: "header f \<noteq> []" by (simp add: well_formed_def)
  note n = tickers_length [OF assms(3)]
  from batch_vals [OF assms(7)] n
  have ms: "length (one_mo_vals s1) = length (rows f)"
    and ys: "length (ytd_vals s1) = length (rows f)" by auto
  have "\<exists>si one_mo ytd s2.
        batch lower_u d (take i ?ts) ?s0 = (Inr (), si) \<and>
        scrape lower_u d (cell_str P (tickers ! i)) si = (Inr (one_mo, ytd), s2) \<and>
        rows (merged P f (one_mo_vals s1) (ytd_vals s1)) ! i
          = take 4 (loaded_row P f i) @ [one_mo, ytd] @ drop 4 (loaded_row P f i)"
    if i: "i < length (rows f)" for i
  proof -
    from i n have il: "i < length ?ts" by simp
    from batch_nth [OF assms(7) il] obtain si one_mo ytd s2 where
      "batch lower_u d (take i ?ts) ?s0 = (Inr (), si)"
      "scrape lower_u d (?ts ! i) si = (Inr (one_mo, ytd), s2)"
      "one_mo_vals s1 ! i = one_mo" "ytd_vals s1 ! i = ytd"
      by auto
    moreover have "?ts ! i = cell_str P (tickers ! i)"
      using il by simp
    moreover have "rows (merged P f (one_mo_vals s1) (ytd_vals s1)) ! i
        = take 4 (loaded_row P f i) @ [one_mo_vals s1 ! i, ytd_vals s1 ! i]
          @ drop 4 (loaded_row P f i)"
      using i ms ys by (simp add: merged_def)
    ultimately show ?thesis by auto
  qed
  moreover have "length (rows (merged P f (one_mo_vals s1) (ytd_vals s1))) = length (rows f)"
    using ms ys by (simp add: merged_def)
  moreover have "length (header (merged P f (one_mo_vals s1) (ytd_vals s1)))
      = length (tl (header f)) + 2"
    using assms(4) by (simp add: merged_def)
  moreover have "length (header (merged P f (one_mo_vals s1) (ytd_vals s1)))
      = length (header f) + 1"
    using assms(4) h by (simp add: merged_def)
  ultimately show ?thesis
    using script_success [OF assms] tickers_column [OF assms(3)] by blast
qed

lemma run_script_demo:
  "files demo_state ''demo_stock_data.csv'' = Some demo_file"
  "well_formed demo_file"
  "df_tickers (csv_table text_pandas demo_file) = Inr [Inferred ''SPY'', Inferred ''VFIAX'']"
  "4 \<le> length (tl (header demo_file))"
  "''Monthly'' \<notin> set (tl (header demo_file))"
  "''YTD'' \<notin> set (tl (header demo_file))"
  "fst (batch id stub (map (cell_str text_pandas) [Inferred ''SPY'', Inferred ''VFIAX''])
     (demo_state\<lparr>one_mo_vals := [], ytd_vals := []\<rparr>)) = Inr ()"
  "one_mo_vals (snd (batch id stub (map (cell_str text_pandas) [Inferred ''SPY'', Inferred ''VFIAX''])
     (demo_state\<lparr>one_mo_vals := [], ytd_vals := []\<rparr>))) = [''1.23'', ''0.98'']"
  "ytd_vals (snd (batch id stub (map (cell_str text_pandas) [Inferred ''SPY'', Inferred ''VFIAX''])
     (demo_state\<lparr>one_mo_vals := [], ytd_vals := []\<rparr>))) = [''10.45'', ''9.11'']"
  "merged text_pandas demo_file [''1.23'', ''0.98''] [''10.45'', ''9.11''] = demo_output"
  "loaded_row text_pandas demo_file 1
     = [''VFIAX'', ''Vanguard 500 Index Admiral'', ''Fund'', ''XNAS'']"
  by (simp_all add: run_defs xpath_neq lower_tickers demo_file_def demo_output_def merged_def
      loaded_row_def well_formed_def table_defs)

lemma script_demo:
  "fst (script text_pandas id stub demo_state) = Inr ()"
  "files (snd (script text_pandas id stub demo_state)) ''updated_stonksdata.csv''
     = Some demo_output"
proof -
  have b: "batch id stub (map (cell_str text_pandas) [Inferred ''SPY'', Inferred ''VFIAX''])
        (demo_state\<lparr>one_mo_vals := [], ytd_vals := []\<rparr>)
      = (Inr (), snd (batch id stub (map (cell_str text_pandas) [Inferred ''SPY'', Inferred ''VFIAX''])
          (demo_state\<lparr>one_mo_vals := [], ytd_vals := []\<rparr>)))"
    by (rule pair_fstI) (rule run_script_demo)
  note r = script_success [OF run_script_demo(1-6) b]
  show "fst (script text_pandas id stub demo_state) = Inr ()"
    by (simp only: r fst_conv)
  show "files (snd (script text_pandas id stub demo_state)) ''updated_stonksdata.csv''
     = Some demo_output"
    by (simp only: r snd_conv run_script_demo(8-10)) simp
qed

theorem script_output_witness:
  "files demo_state ''demo_stock_data.csv'' = Some demo_file \<and> well_formed demo_file \<and>
   fst (script text_pandas id stub demo_state) = Inr () \<and>
   files (snd (script text_pandas id stub demo_state)) ''updated_stonksdata.csv''
     = Some demo_output \<and>
   length (rows demo_output) = length (rows demo_file) \<and>
   length (header demo_output) = length (header demo_file) + 1 \<and>
   (\<exists>si s2. batch id stub [''SPY''] (demo_state\<lparr>one_mo_vals := [], ytd_vals := []\<rparr>) = (Inr (), si) \<and>
      scrape id stub ''VFIAX'' si = (Inr (''0.98'', ''9.11''), s2) \<and>
      rows demo_output ! 1 = [''VFIAX'', ''Vanguard 500 Index Admiral'', ''Fund'', ''XNAS'',
        ''0.98'', ''9.11''])"
proof -
  let ?ts = "map (cell_str text_pandas) [Inferred ''SPY'', Inferred ''VFIAX'']"
  have b: "batch id stub ?ts (demo_state\<lparr>one_mo_vals := [], ytd_vals := []\<rparr>)
      = (Inr (), snd (batch id stub ?ts (demo_state\<lparr>one_mo_vals := [], ytd_vals := []\<rparr>)))"
    by (rule pair_fstI) (rule run_script_demo)
  note t = script_output [OF run_script_demo(1-6) b]
  have n: "(1::nat) < length (rows demo_file)" by (simp add: demo_file_def)
  have ts: "take 1 ?ts = [''SPY'']" "cell_str text_pandas ([Inferred ''SPY'', Inferred ''VFIAX''] ! 1) = ''VFIAX''"
    by (simp_all add: text_pandas_def)
  from t [THEN conjunct2, THEN conjunct2, THEN conjunct2, THEN conjunct2, THEN conjunct2,
      rule_format, OF n]
  have 1: "\<exists>si s2. batch id stub [''SPY''] (demo_state\<lparr>one_mo_vals := [], ytd_vals := []\<rparr>) = (Inr (), si) \<and>
      scrape id stub ''VFIAX'' si = (Inr (''0.98'', ''9.11''), s2) \<and>
      rows demo_output ! 1 = [''VFIAX'', ''Vanguard 500 Index Admiral'', ''Fund'', ''XNAS'',
        ''0.98'', ''9.11'']"
    unfolding ts run_script_demo(8-11) by (auto simp: demo_output_def)
  from t have 2: "fst (script text_pandas id stub demo_state) = Inr ()"
    by simp
  from t have 3: "files (snd (script text_pandas id stub demo_state)) ''updated_stonksdata.csv''
      = Some demo_output"
    unfolding run_script_demo(8-10) by simp
  from t have 4: "length (rows demo_output) = length (rows demo_file)"
    and 5: "length (header demo_output) = length (header demo_file) + 1"
    unfolding run_script_demo(8-10) by simp_all
  from 1 2 3 4 5 run_script_demo(1,2) show ?thesis by blast
qed

text \<open>
  Claim C2 as stated fails: on the sample file, which has five columns, every scrape
  succeeds and the written table has six columns, not seven.
\<close>

theorem script_output_counterexample:
  "fst (script text_pandas id stub demo_state) = Inr () \<and>
   files (snd (script text_pandas id stub demo_state)) ''updated_stonksdata.csv''
     = Some demo_output \<and>
   length (rows demo_output) = length (rows demo_file) \<and>
   length (header demo_output) \<noteq> length (header demo_file) + 2"
  using script_demo by (simp add: demo_output_def demo_file_def)

end
